theory Spec2Isabelle
  imports Complex_Main "HOL-Library.Sublist"
begin

section \<open>Python values\<close>

text \<open>
  A Python \<open>str\<close> is modelled by the \<open>string\<close> of its UTF-8 bytes, so the check mark
  U+2713 is three characters.  Slicing and the character classes of \<open>re\<close> act on
  ASCII the way Python's do; a text with other letters, digits or blanks is outside the model.
  A Python \<open>float\<close> is modelled by the rational number its decimal literal denotes; NaN,
  infinities and binary rounding are outside the model.  Exceptions are values of \<open>py_error\<close>.
\<close>

datatype py_error = ValueError string | AttributeError string | IndexError string

definition apostrophe :: string where
  "apostrophe = [CHR 0x27]"

definition check_mark :: string where
  "check_mark = [CHR 0xE2, CHR 0x9C, CHR 0x93]"

definition warning_sign :: string where
  "warning_sign = [CHR 0xE2, CHR 0x9A, CHR 0xA0]"

text \<open>\<open>sep.join(xs)\<close>\<close>

fun join :: "string \<Rightarrow> string list \<Rightarrow> string" where
  "join sep [] = []"
| "join sep [x] = x"
| "join sep (x # y # ys) = x @ sep @ join sep (y # ys)"

definition digit_char :: "nat \<Rightarrow> char" where
  "digit_char d = ''0123456789'' ! (d mod 10)"

text \<open>\<open>str(n)\<close> for a non-negative integer, and for any integer.\<close>

fun show_nat :: "nat \<Rightarrow> string" where
  "show_nat n = (if n < 10 then [digit_char n] else show_nat (n div 10) @ [digit_char (n mod 10)])"

definition show_int :: "int \<Rightarrow> string" where
  "show_int i = (if i < 0 then ''-'' @ show_nat (nat (- i)) else show_nat (nat i))"

text \<open>Rounding to the nearest integer, ties to even, as the float formatter rounds.\<close>

definition round_half_even :: "rat \<Rightarrow> int" where
  "round_half_even q =
     (let f = \<lfloor>q\<rfloor>; d = q - of_int f in
      if d < 1 / 2 then f else if 1 / 2 < d then f + 1 else if even f then f else f + 1)"

text \<open>\<open>f"{x:.2f}"\<close> and \<open>f"{x:.2%}"\<close>\<close>

definition fmt2f :: "rat \<Rightarrow> string" where
  "fmt2f x =
     (let n = nat (round_half_even (\<bar>x\<bar> * 100)) in
      (if x < 0 then ''-'' else '''') @ show_nat (n div 100) @ ''.'' @
      [digit_char (n div 10), digit_char n])"

definition fmt2pct :: "rat \<Rightarrow> string" where
  "fmt2pct x = fmt2f (x * 100) @ ''%''"

subsection \<open>String methods\<close>

definition ascii_upper :: string where
  "ascii_upper = ''ABCDEFGHIJKLMNOPQRSTUVWXYZ''"

definition ascii_lower :: string where
  "ascii_lower = ''abcdefghijklmnopqrstuvwxyz''"

definition ascii_digits :: string where
  "ascii_digits = ''0123456789''"

definition is_space :: "char \<Rightarrow> bool" where
  "is_space c \<longleftrightarrow>
     c \<in> set [CHR '' '', CHR 0x09, CHR 0x0A, CHR 0x0B, CHR 0x0C, CHR 0x0D, CHR 0x1C, CHR 0x1D, CHR 0x1E, CHR 0x1F]"

definition is_digit :: "char \<Rightarrow> bool" where
  "is_digit c \<longleftrightarrow> c \<in> set ascii_digits"

definition is_alpha :: "char \<Rightarrow> bool" where
  "is_alpha c \<longleftrightarrow> c \<in> set ascii_upper \<or> c \<in> set ascii_lower"

definition is_word :: "char \<Rightarrow> bool" where
  "is_word c \<longleftrightarrow> is_alpha c \<or> is_digit c \<or> c = CHR ''_''"

definition to_lower :: "char \<Rightarrow> char" where
  "to_lower c = (case map_of (zip ascii_upper ascii_lower) c of Some d \<Rightarrow> d | None \<Rightarrow> c)"

definition to_upper :: "char \<Rightarrow> char" where
  "to_upper c = (case map_of (zip ascii_lower ascii_upper) c of Some d \<Rightarrow> d | None \<Rightarrow> c)"

definition lower :: "string \<Rightarrow> string" where
  "lower s = map to_lower s"

text \<open>\<open>s.title()\<close>: the first letter of each run of letters in upper case, the others in
  lower case.\<close>

fun title_from :: "bool \<Rightarrow> string \<Rightarrow> string" where
  "title_from prev [] = []"
| "title_from prev (c # cs) =
     (if is_alpha c then (if prev then to_lower c else to_upper c) # title_from True cs
      else c # title_from False cs)"

definition py_title :: "string \<Rightarrow> string" where
  "py_title s = title_from False s"

text \<open>\<open>s.strip()\<close>, \<open>s.strip(chars)\<close>, \<open>s.split(sep)\<close> for a separator of one
  character, \<open>s.replace(c, '')\<close>, \<open>sub in s\<close>.\<close>

definition strip_where :: "(char \<Rightarrow> bool) \<Rightarrow> string \<Rightarrow> string" where
  "strip_where p s = rev (dropWhile p (rev (dropWhile p s)))"

definition strip :: "string \<Rightarrow> string" where
  "strip s = strip_where is_space s"

definition strip_chars :: "string \<Rightarrow> string \<Rightarrow> string" where
  "strip_chars chars s = strip_where (\<lambda>c. c \<in> set chars) s"

fun split :: "char \<Rightarrow> string \<Rightarrow> string list" where
  "split sep [] = [[]]"
| "split sep (c # cs) =
     (if c = sep then [] # split sep cs
      else (case split sep cs of [] \<Rightarrow> [[c]] | w # ws \<Rightarrow> (c # w) # ws))"

definition remove_char :: "char \<Rightarrow> string \<Rightarrow> string" where
  "remove_char c s = filter (\<lambda>x. x \<noteq> c) s"

fun contains :: "string \<Rightarrow> string \<Rightarrow> bool" where
  "contains sub [] \<longleftrightarrow> sub = []"
| "contains sub (c # cs) \<longleftrightarrow> prefix sub (c # cs) \<or> contains sub cs"

section \<open>Data models (src/models.py)\<close>

datatype priority = PrHigh | PrMedium | PrLow

record AnalysisQuestion =
  q_category :: string
  q_focus_item :: string
  q_question :: string
  q_priority :: priority

datatype sentiment_label = Very_positive | Positive | Neutral | Negative | Very_negative

fun sentiment_str :: "sentiment_label \<Rightarrow> string" where
  "sentiment_str Very_positive = ''very_positive''"
| "sentiment_str Positive = ''positive''"
| "sentiment_str Neutral = ''neutral''"
| "sentiment_str Negative = ''negative''"
| "sentiment_str Very_negative = ''very_negative''"

record SentimentAnalysisResult =
  overall_sentiment :: sentiment_label
  sentiment_score :: rat
  market_sentiment :: string
  key_sentiment_drivers :: "string list"
  news_headlines :: "string list"
  sent_confidence :: rat
  sent_tool_validations :: "string list"

datatype impact = ImpHigh | ImpMedium | ImpLow

text \<open>\<open>event.impact_assessment.upper()\<close>\<close>

fun impact_upper :: "impact \<Rightarrow> string" where
  "impact_upper ImpHigh = ''HIGH''"
| "impact_upper ImpMedium = ''MEDIUM''"
| "impact_upper ImpLow = ''LOW''"

record SignificantEvent =
  event_type :: string
  description :: string
  mentioned_in_call :: bool
  verified :: bool
  source :: string
  impact_assessment :: impact

record SignificantEventDetectionResult =
  events :: "SignificantEvent list"
  total_events_found :: int
  verified_count :: int
  ev_confidence :: rat
  ev_tool_validations :: "string list"

record TranscriptAnalysisAnswer =
  a_category :: string
  a_focus_item :: string
  a_question :: string
  a_answer :: string
  a_confidence :: rat
  a_relevant_quotes :: "string list"

datatype volatility_label = Very_high | High | Moderate | Low | Very_low

fun volatility_str :: "volatility_label \<Rightarrow> string" where
  "volatility_str Very_high = ''very_high''"
| "volatility_str High = ''high''"
| "volatility_str Moderate = ''moderate''"
| "volatility_str Low = ''low''"
| "volatility_str Very_low = ''very_low''"

record VolatilityPredictionResult =
  predicted_volatility :: volatility_label
  volatility_score :: rat
  transcript_insights :: "TranscriptAnalysisAnswer list"
  key_volatility_drivers :: "string list"
  sentiment_impact :: string
  event_impact :: string
  vol_confidence :: rat
  historical_volatility :: rat
  vol_tool_validations :: "string list"

record GuardrailViolation =
  g_timestamp :: string
  g_agent :: string
  guardrail_type :: string
  g_description :: string
  action_taken :: string

record AgentCapability =
  agent_name :: string
  capabilities :: "string list"
  limitations :: "string list"
  confidence_threshold :: rat

record FinSightSelfModel =
  system_name :: string
  version :: string
  mission :: string
  agent_capabilities :: "AgentCapability list"
  operating_boundaries :: "string list"
  min_confidence_for_recommendation :: rat
  active_guardrails :: "string list"
  guardrail_violations :: "GuardrailViolation list"

record MetacognitiveDecision =
  user_intent :: string
  analysis_plan :: "string list"
  agents_to_invoke :: "string list"
  md_confidence :: rat
  reasoning :: string

text \<open>
  The run state is the dictionary \<open>GraphState\<close> of the workflow: the keys that
  \<open>run_analysis\<close> sets at the start are fields, the others are optional.
\<close>

record FinSightState =
  user_query :: string
  company_ticker :: string
  transcript_path :: string
  analysis_questions :: "AnalysisQuestion list"
  self_model :: FinSightSelfModel
  metacognitive_decision :: "MetacognitiveDecision option"
  transcript_content :: "string option"
  sentiment_result :: "SentimentAnalysisResult option"
  event_detection_result :: "SignificantEventDetectionResult option"
  volatility_result :: "VolatilityPredictionResult option"
  final_report :: "string option"
  guardrails_applied :: "GuardrailViolation list"
  errors :: "string list"

definition DEFAULT_ANALYSIS_QUESTIONS :: "AnalysisQuestion list" where
  "DEFAULT_ANALYSIS_QUESTIONS =
     [\<lparr>q_category = ''Financial Performance'', q_focus_item = ''Dividends'',
       q_question = ''Did this company pay investors a dividend? If yes, what was the amount and frequency?'',
       q_priority = PrHigh\<rparr>,
      \<lparr>q_category = ''Financial Performance'', q_focus_item = ''Revenue Growth'',
       q_question = ''What was the year-over-year revenue growth rate mentioned in the call?'',
       q_priority = PrHigh\<rparr>,
      \<lparr>q_category = ''Strategic Initiatives'', q_focus_item = ''Key Projects'',
       q_question = ''What are the key projects or initiatives currently being undertaken by the company?'',
       q_priority = PrHigh\<rparr>,
      \<lparr>q_category = ''Risk Factors'', q_focus_item = ''Challenges'',
       q_question = ''What challenges, risks, or headwinds did the management discuss?'',
       q_priority = PrHigh\<rparr>,
      \<lparr>q_category = ''Forward Guidance'', q_focus_item = ''Outlook'',
       q_question = ''What guidance did the company provide for the next quarter or fiscal year?'',
       q_priority = PrHigh\<rparr>]"

definition get_default_self_model :: FinSightSelfModel where
  "get_default_self_model =
     \<lparr>system_name = ''FinSight Agent'',
      version = ''1.0'',
      mission = ''Provide comprehensive, multi-agent financial analysis of earnings calls while maintaining transparency, accuracy, and ethical boundaries'',
      agent_capabilities =
        [\<lparr>agent_name = ''Sentiment Analysis Agent'',
          capabilities =
            [''Analyze sentiment from earnings call transcripts'',
             ''Correlate with market news sentiment using Tavily'',
             ''Identify sentiment drivers and trends''],
          limitations =
            [''Cannot predict future sentiment with certainty'',
             ''Limited to English language sources''],
          confidence_threshold = 65 / 100\<rparr>,
         \<lparr>agent_name = ''Significant Event Detection Agent'',
          capabilities =
            [''Identify corporate events from transcripts'',
             ''Verify events against SEC filings using EDGAR'',
             ''Assess event materiality and impact''],
          limitations =
            [''Cannot access all global press releases'',
             ''SEC filings may have reporting delays''],
          confidence_threshold = 7 / 10\<rparr>,
         \<lparr>agent_name = ''Volatility Prediction Agent'',
          capabilities =
            [''Extract structured insights from transcripts'',
             ''Analyze multi-modal signals'',
             ''Validate predictions using yfinance market data''],
          limitations =
            [''Cannot guarantee prediction accuracy'',
             ''Subject to unforeseen market shocks''],
          confidence_threshold = 6 / 10\<rparr>],
      operating_boundaries =
        [''NO personalized investment advice or stock recommendations'',
         ''NO guarantees about future stock performance'',
         ''All outputs are for educational and analytical purposes only'',
         ''Must disclose confidence levels and limitations''],
      min_confidence_for_recommendation = 7 / 10,
      active_guardrails =
        [''Confidence threshold enforcement'',
         ''Source verification requirement'',
         ''Investment advice prohibition'',
         ''Transparent limitation disclosure''],
      guardrail_violations = []\<rparr>"

section \<open>The external capabilities\<close>

text \<open>
  The completion capability, the search, filing and market-data providers, the file system
  and the clock are outside the repository.  A run is a function of what they answer:
  each is a field of the environment, an exception being \<open>Inl\<close> of its message.
\<close>

datatype tavily_response = NotAList | ResultList "string option list"

record env =
  llm_coordinator :: "string \<Rightarrow> string \<Rightarrow> string + MetacognitiveDecision"
  llm_sentiment :: "string \<Rightarrow> string \<Rightarrow> string + SentimentAnalysisResult"
  llm_events :: "string \<Rightarrow> string \<Rightarrow> string + SignificantEventDetectionResult"
  llm_question :: "string \<Rightarrow> string \<Rightarrow> string + TranscriptAnalysisAnswer"
  llm_volatility ::
    "rat \<Rightarrow> rat option \<Rightarrow> string \<Rightarrow> string \<Rightarrow> string \<Rightarrow> string + VolatilityPredictionResult"
  search_tool :: "(string \<Rightarrow> string + tavily_response) option"
  downloader_get :: "string \<Rightarrow> string \<Rightarrow> nat \<Rightarrow> string + int"
  repr_filing_results :: "(string \<times> int \<times> string) list \<Rightarrow> string"
  get_historical_volatility :: "string \<Rightarrow> rat"
  get_price_movement :: "string \<Rightarrow> rat option"
  transcript_files :: "string \<Rightarrow> (string + string) option"
  now_text :: "string \<Rightarrow> string"
  now_file :: "string \<Rightarrow> string"

section \<open>Tools (src/tools.py)\<close>

text \<open>\<open>FinancialNewsSearchTool.search\<close> with no company name, and \<open>get_sentiment_news\<close>:
  a result is kept as the title of its dictionary, if it has one.\<close>

definition search :: "env \<Rightarrow> string \<Rightarrow> string option list" where
  "search e query =
     (case search_tool e of
        None \<Rightarrow> []
      | Some invoke \<Rightarrow>
          (case invoke query of
             Inl exc \<Rightarrow> []
           | Inr NotAList \<Rightarrow> []
           | Inr (ResultList results) \<Rightarrow> results))"

definition get_sentiment_news :: "env \<Rightarrow> string \<Rightarrow> string option list" where
  "get_sentiment_news e ticker = search e (ticker @ '' earnings sentiment market reaction analyst'')"

text \<open>\<open>SECFilingTool.download_recent_filings\<close>: one entry per filing type, holding the
  number downloaded and the status.\<close>

fun download_recent_filings :: "env \<Rightarrow> string \<Rightarrow> string list \<Rightarrow> nat \<Rightarrow> (string \<times> int \<times> string) list" where
  "download_recent_filings e ticker [] limit = []"
| "download_recent_filings e ticker (filing_type # rest) limit =
     (case downloader_get e filing_type ticker limit of
        Inr num_downloaded \<Rightarrow> (filing_type, num_downloaded, ''success'')
      | Inl exc \<Rightarrow> (filing_type, 0, ''error: '' @ exc))
     # download_recent_filings e ticker rest limit"

text \<open>\<open>TranscriptReaderTool.read_transcript\<close>: a missing file and a failing read both
  come back as a text that starts with \<open>Error\<close>.\<close>

definition read_transcript :: "env \<Rightarrow> string \<Rightarrow> string" where
  "read_transcript e file_path =
     (case transcript_files e file_path of
        None \<Rightarrow> ''Error: Transcript file not found at '' @ file_path
      | Some (Inl exc) \<Rightarrow> ''Error reading transcript: '' @ exc
      | Some (Inr content) \<Rightarrow> content)"

section \<open>Agents (src/agents)\<close>

text \<open>
  A node returns the keys it changed.  The workflow's state has no reducer, so a returned
  key replaces the value the state holds: \<open>merge_update\<close> below.
\<close>

record state_update =
  u_metacognitive_decision :: "MetacognitiveDecision option"
  u_transcript_content :: "string option"
  u_sentiment_result :: "SentimentAnalysisResult option"
  u_event_detection_result :: "SignificantEventDetectionResult option"
  u_volatility_result :: "VolatilityPredictionResult option"
  u_final_report :: "string option"
  u_guardrails_applied :: "GuardrailViolation list option"
  u_errors :: "string list option"

definition no_update :: state_update where
  "no_update =
     \<lparr>u_metacognitive_decision = None, u_transcript_content = None, u_sentiment_result = None,
      u_event_detection_result = None, u_volatility_result = None, u_final_report = None,
      u_guardrails_applied = None, u_errors = None\<rparr>"

definition merge_update :: "FinSightState \<Rightarrow> state_update \<Rightarrow> FinSightState" where
  "merge_update st u =
     st\<lparr>metacognitive_decision :=
          (case u_metacognitive_decision u of None \<Rightarrow> metacognitive_decision st | Some v \<Rightarrow> Some v),
        transcript_content :=
          (case u_transcript_content u of None \<Rightarrow> transcript_content st | Some v \<Rightarrow> Some v),
        sentiment_result :=
          (case u_sentiment_result u of None \<Rightarrow> sentiment_result st | Some v \<Rightarrow> Some v),
        event_detection_result :=
          (case u_event_detection_result u of None \<Rightarrow> event_detection_result st | Some v \<Rightarrow> Some v),
        volatility_result :=
          (case u_volatility_result u of None \<Rightarrow> volatility_result st | Some v \<Rightarrow> Some v),
        final_report :=
          (case u_final_report u of None \<Rightarrow> final_report st | Some v \<Rightarrow> Some v),
        guardrails_applied :=
          (case u_guardrails_applied u of None \<Rightarrow> guardrails_applied st | Some v \<Rightarrow> v),
        errors :=
          (case u_errors u of None \<Rightarrow> errors st | Some v \<Rightarrow> v)\<rparr>"

text \<open>\<open>state.get('transcript_content', '')\<close> and the excerpt the agents cut from it.\<close>

definition get_transcript :: "FinSightState \<Rightarrow> string" where
  "get_transcript st = (case transcript_content st of None \<Rightarrow> [] | Some t \<Rightarrow> t)"

definition excerpt_of :: "nat \<Rightarrow> string \<Rightarrow> string" where
  "excerpt_of n transcript = (if transcript \<noteq> [] then take n transcript else ''No transcript available'')"

subsection \<open>coordinator.py\<close>

definition coordinator_process :: "env \<Rightarrow> FinSightState \<Rightarrow> state_update" where
  "coordinator_process e st =
     (case llm_coordinator e (user_query st) (company_ticker st) of
        Inr decision \<Rightarrow>
          no_update\<lparr>u_metacognitive_decision := Some decision,
                    u_guardrails_applied := Some (guardrails_applied st)\<rparr>
      | Inl exc \<Rightarrow>
          no_update\<lparr>u_errors := Some (errors st @ [''Coordinator error: '' @ exc])\<rparr>)"

subsection \<open>sentiment.py\<close>

definition gather_news_context :: "env \<Rightarrow> string \<Rightarrow> string list" where
  "gather_news_context e ticker =
     (let results = get_sentiment_news e ticker in
      if results \<noteq> []
      then map (\<lambda>r. take 100 (case r of None \<Rightarrow> [] | Some title \<Rightarrow> title)) (take 5 results)
      else [])"

definition sentiment_process :: "env \<Rightarrow> FinSightState \<Rightarrow> state_update" where
  "sentiment_process e st =
     (let transcript = get_transcript st;
          ticker = company_ticker st;
          headlines = gather_news_context e ticker;
          excerpt = excerpt_of 3000 transcript;
          news_context =
            (if headlines \<noteq> [] then join ''\<newline>'' headlines else ''No recent news available'')
      in case llm_sentiment e excerpt news_context of
           Inr result \<Rightarrow>
             no_update\<lparr>u_sentiment_result := Some
               (if headlines \<noteq> []
                then result\<lparr>news_headlines := headlines,
                            sent_tool_validations := sent_tool_validations result @
                              [''Validated sentiment using '' @ show_nat (length headlines) @
                               '' news articles from Tavily'']\<rparr>
                else result)\<rparr>
         | Inl exc \<Rightarrow>
             no_update\<lparr>u_errors := Some (errors st @ [''Sentiment analysis error: '' @ exc])\<rparr>)"

subsection \<open>events.py\<close>

record sec_validation =
  filings_checked :: bool
  filing_results :: "(string \<times> int \<times> string) list"
  sec_validation_notes :: "string list"

definition validate_with_sec_filings :: "env \<Rightarrow> string \<Rightarrow> sec_validation" where
  "validate_with_sec_filings e ticker =
     (let results = download_recent_filings e ticker [''8-K'', ''10-Q''] 3;
          successful =
            length (filter (\<lambda>(filing_type, downloaded, status). status = ''success'' \<and> 0 < downloaded) results)
      in \<lparr>filings_checked = True,
          filing_results = results,
          sec_validation_notes =
            (if 0 < successful
             then [''Downloaded '' @ show_nat successful @ '' SEC filing types for cross-reference'']
             else [''No recent SEC filings available for validation''])\<rparr>)"

definition events_process :: "env \<Rightarrow> FinSightState \<Rightarrow> state_update" where
  "events_process e st =
     (let transcript = get_transcript st;
          ticker = company_ticker st;
          sec = validate_with_sec_filings e ticker;
          excerpt = excerpt_of 3000 transcript;
          validation_context = join ''\<newline>'' (sec_validation_notes sec)
      in case llm_events e excerpt validation_context of
           Inr result \<Rightarrow>
             no_update\<lparr>u_event_detection_result := Some
               (if filings_checked sec
                then result\<lparr>ev_tool_validations := ev_tool_validations result @
                       [''Validated events using SEC EDGAR: '' @ repr_filing_results e (filing_results sec)]\<rparr>
                else result)\<rparr>
         | Inl exc \<Rightarrow>
             no_update\<lparr>u_errors := Some (errors st @ [''Event detection error: '' @ exc])\<rparr>)"

subsection \<open>volatility.py\<close>

record market_validation =
  mv_historical_volatility :: rat
  price_movement :: "rat option"
  mv_validation_notes :: "string list"

text \<open>The price movement is kept as its \<open>change_percent\<close>; the empty dictionary is \<open>None\<close>.\<close>

definition validate_with_market_data :: "env \<Rightarrow> string \<Rightarrow> market_validation" where
  "validate_with_market_data e ticker =
     (let hist_vol = get_historical_volatility e ticker;
          movement = get_price_movement e ticker
      in \<lparr>mv_historical_volatility = hist_vol,
          price_movement = movement,
          mv_validation_notes =
            (case movement of
               None \<Rightarrow> []
             | Some change \<Rightarrow>
                 [''1-month price change: '' @ fmt2f change @ ''%, volatility: '' @ fmt2pct hist_vol])\<rparr>)"

fun answer_questions :: "env \<Rightarrow> string \<Rightarrow> AnalysisQuestion list \<Rightarrow> TranscriptAnalysisAnswer list" where
  "answer_questions e excerpt [] = []"
| "answer_questions e excerpt (q # qs) =
     (case llm_question e (q_question q) excerpt of
        Inr answer \<Rightarrow> answer # answer_questions e excerpt qs
      | Inl exc \<Rightarrow> answer_questions e excerpt qs)"

definition answer_analysis_questions ::
    "env \<Rightarrow> string \<Rightarrow> AnalysisQuestion list \<Rightarrow> TranscriptAnalysisAnswer list" where
  "answer_analysis_questions e transcript questions =
     answer_questions e (excerpt_of 4000 transcript) (take 5 questions)"

definition volatility_process :: "env \<Rightarrow> FinSightState \<Rightarrow> state_update" where
  "volatility_process e st =
     (let transcript = get_transcript st;
          ticker = company_ticker st;
          market = validate_with_market_data e ticker;
          insights = answer_analysis_questions e transcript (analysis_questions st);
          sentiment_summary =
            (case sentiment_result st of
               None \<Rightarrow> ''Unknown''
             | Some sent \<Rightarrow>
                 sentiment_str (overall_sentiment sent) @ '' (score: '' @ fmt2f (sentiment_score sent) @ '')'');
          events_summary =
            (case event_detection_result st of
               None \<Rightarrow> ''Unknown''
             | Some evs \<Rightarrow>
                 show_int (total_events_found evs) @ '' events ('' @ show_int (verified_count evs) @
                 '' verified)'');
          validation_context = join ''\<newline>'' (mv_validation_notes market)
      in case llm_volatility e (mv_historical_volatility market) (price_movement market)
                sentiment_summary events_summary validation_context of
           Inr result \<Rightarrow>
             (let result1 = result\<lparr>transcript_insights := insights,
                                    historical_volatility := mv_historical_volatility market\<rparr>
              in no_update\<lparr>u_volatility_result := Some
                   (if mv_validation_notes market \<noteq> []
                    then result1\<lparr>vol_tool_validations := vol_tool_validations result1 @
                           [''Validated with yfinance: '' @ join '', '' (mv_validation_notes market)]\<rparr>
                    else result1)\<rparr>)
         | Inl exc \<Rightarrow>
             no_update\<lparr>u_errors := Some (errors st @ [''Volatility prediction error: '' @ exc])\<rparr>)"

section \<open>Orchestrator (src/orchestrator.py)\<close>

subsection \<open>The final report\<close>

text \<open>\<open>step.lstrip('0123456789. ')\<close>\<close>

definition clean_step :: "string \<Rightarrow> string" where
  "clean_step step = dropWhile (\<lambda>c. c \<in> set ''0123456789. '') step"

text \<open>The loops of \<open>_generate_final_report\<close> that add one line or block per item.\<close>

fun plan_lines :: "nat \<Rightarrow> string list \<Rightarrow> string" where
  "plan_lines i [] = []"
| "plan_lines i (step # steps) =
     (show_nat i @ ''. '' @ clean_step step @ ''\<newline>'') @ plan_lines (Suc i) steps"

definition bullet_lines :: "string list \<Rightarrow> string" where
  "bullet_lines items = concat (map (\<lambda>item. ''- '' @ item @ ''\<newline>'') items)"

definition yes_no :: "bool \<Rightarrow> string" where
  "yes_no b = (if b then ''Yes'' else ''No'')"

fun report_events :: "nat \<Rightarrow> SignificantEvent list \<Rightarrow> string" where
  "report_events i [] = []"
| "report_events i (event # rest) =
     (''\<newline>'' @ ''### Event '' @ show_nat i @ '': '' @ event_type event @
      ''\<newline>\<newline>'' @ ''- **Description:** '' @ description event @ ''\<newline>'' @
      ''- **Mentioned in Call:** '' @ yes_no (mentioned_in_call event) @ ''\<newline>'' @
      ''- **Verified:** '' @ yes_no (verified event) @ ''\<newline>'' @ ''- **Source:** '' @
      source event @ ''\<newline>'' @ ''- **Impact Assessment:** '' @
      impact_upper (impact_assessment event) @ ''\<newline>'')
     @ report_events (Suc i) rest"

definition report_insight :: "TranscriptAnalysisAnswer \<Rightarrow> string" where
  "report_insight insight =
     ''#### '' @ a_focus_item insight @ ''\<newline>'' @ ''**Question:** '' @ a_question insight @
      ''  \<newline>'' @ ''**Answer:** '' @ a_answer insight @ ''  \<newline>'' @ ''**Confidence:** '' @
      fmt2pct (a_confidence insight) @ ''\<newline>\<newline>''"

definition report_guardrail :: "GuardrailViolation \<Rightarrow> string" where
  "report_guardrail g =
     ''- **'' @ guardrail_type g @ ''** ('' @ g_agent g @ '')\<newline>'' @ ''  - '' @
      g_description g @ ''\<newline>'' @ ''  - Action: '' @ action_taken g @ ''\<newline>''"

text \<open>The parts of the report, in the order \<open>_generate_final_report\<close> appends them.\<close>

definition report_header ::
    "string \<Rightarrow> string \<Rightarrow> FinSightSelfModel \<Rightarrow> SentimentAnalysisResult option \<Rightarrow>
     SignificantEventDetectionResult option \<Rightarrow> VolatilityPredictionResult option \<Rightarrow> string" where
  "report_header timestamp ticker sm sent evs vol =
     (let sentiment_name = (case sent of Some s \<Rightarrow> sentiment_str (overall_sentiment s) | None \<Rightarrow> ''N/A'');
          sentiment_score_s = (case sent of Some s \<Rightarrow> fmt2f (sentiment_score s) | None \<Rightarrow> ''0.00'');
          sentiment_conf = (case sent of Some s \<Rightarrow> fmt2pct (sent_confidence s) | None \<Rightarrow> ''0%'');
          events_total = (case evs of Some ev \<Rightarrow> total_events_found ev | None \<Rightarrow> 0);
          events_verified = (case evs of Some ev \<Rightarrow> verified_count ev | None \<Rightarrow> 0);
          events_conf = (case evs of Some ev \<Rightarrow> fmt2pct (ev_confidence ev) | None \<Rightarrow> ''0%'');
          volatility_name = (case vol of Some v \<Rightarrow> volatility_str (predicted_volatility v) | None \<Rightarrow> ''N/A'');
          volatility_score_s = (case vol of Some v \<Rightarrow> fmt2f (volatility_score v) | None \<Rightarrow> ''0.00'');
          volatility_conf = (case vol of Some v \<Rightarrow> fmt2pct (vol_confidence v) | None \<Rightarrow> ''0%'');
          hist_vol = (case vol of Some v \<Rightarrow> fmt2pct (historical_volatility v) | None \<Rightarrow> ''0%'')
      in ''# FinSight Multi-Agent Analysis Report\<newline>\<newline>'' @ ''**Generated:** '' @ timestamp @
         ''  \<newline>'' @ ''**Company:** '' @ ticker @ ''  \<newline>'' @ ''**System Version:** '' @
         version sm @ ''\<newline>\<newline>'' @ ''---\<newline>\<newline>'' @
         ''## Executive Summary\<newline>\<newline>'' @ ''- **Sentiment:** '' @ sentiment_name @
         '' (Score: '' @ sentiment_score_s @ '', Confidence: '' @ sentiment_conf @ '')\<newline>'' @
         ''- **Events Detected:** '' @ show_int events_total @ '' ('' @ show_int events_verified @
         '' verified, Confidence: '' @ events_conf @ '')\<newline>'' @ ''- **Predicted Volatility:** '' @
         volatility_name @ '' (Score: '' @ volatility_score_s @ '', Confidence: '' @ volatility_conf @
         '')\<newline>'' @ ''- **Historical Volatility:** '' @ hist_vol @ ''\<newline>\<newline>'' @
         ''---\<newline>\<newline>'' @ ''## 1. Coordinator'' @ apostrophe @
         ''s Metacognitive Analysis\<newline>\<newline>'')"

definition report_coordinator :: "MetacognitiveDecision option \<Rightarrow> string" where
  "report_coordinator decision =
     (case decision of
        None \<Rightarrow> []
      | Some d \<Rightarrow>
          ''**User Intent:** '' @ user_intent d @ ''\<newline>\<newline>'' @
          ''**Analysis Plan:**\<newline>'' @
          plan_lines 1 (analysis_plan d) @
          ''\<newline>'' @ ''**Agents Invoked:** '' @ join '', '' (agents_to_invoke d) @ ''\<newline>'' @
          ''**Coordinator Confidence:** '' @ fmt2pct (md_confidence d) @ ''\<newline>'' @
          ''\<newline>'' @ ''**Reasoning:** '' @ reasoning d @ ''\<newline>'')"

definition report_sentiment :: "SentimentAnalysisResult option \<Rightarrow> string" where
  "report_sentiment sent =
     ''\<newline>'' @ ''---\<newline>\<newline>'' @ ''## 2. Sentiment Analysis\<newline>\<newline>'' @
     (case sent of
        Some s \<Rightarrow>
          ''**Overall Sentiment:** '' @ sentiment_str (overall_sentiment s) @ ''  \<newline>'' @
          ''**Sentiment Score:** '' @ fmt2f (sentiment_score s) @ '' (range: -1.0 to 1.0)  \<newline>'' @
          ''**Confidence:** '' @ fmt2pct (sent_confidence s) @ ''\<newline>\<newline>'' @
          ''**Market Sentiment Summary:**\<newline>'' @ market_sentiment s @ ''\<newline>\<newline>'' @
          ''**Key Sentiment Drivers:**\<newline>'' @
          bullet_lines (key_sentiment_drivers s) @
          (if news_headlines s \<noteq> []
           then ''\<newline>'' @ ''**News Headlines Analyzed:**\<newline>'' @ bullet_lines (news_headlines s) else []) @
          (if sent_tool_validations s \<noteq> []
           then ''\<newline>'' @ ''**Tool Validations:**\<newline>'' @ bullet_lines (sent_tool_validations s) else [])
      | None \<Rightarrow> ''*Sentiment analysis not available.*\<newline>'')"

definition report_event_detection :: "SignificantEventDetectionResult option \<Rightarrow> string" where
  "report_event_detection evs =
     ''\<newline>'' @ ''---\<newline>\<newline>'' @
      ''## 3. Significant Event Detection\<newline>\<newline>'' @
     (case evs of
        Some ev \<Rightarrow>
          ''**Total Events Found:** '' @ show_int (total_events_found ev) @ ''  \<newline>'' @
          ''**Verified Events:** '' @ show_int (verified_count ev) @ ''  \<newline>'' @
          ''**Confidence:** '' @ fmt2pct (ev_confidence ev) @ ''\<newline>\<newline>'' @
          ''**Detected Events:**\<newline>'' @
          report_events 1 (events ev) @
          (if ev_tool_validations ev \<noteq> []
           then ''\<newline>'' @ ''**Tool Validations:**\<newline>'' @ bullet_lines (ev_tool_validations ev) else [])
      | None \<Rightarrow> ''*Event detection not available.*\<newline>'')"

definition report_volatility :: "VolatilityPredictionResult option \<Rightarrow> string" where
  "report_volatility vol =
     ''\<newline>'' @ ''---\<newline>\<newline>'' @
      ''## 4. Volatility Prediction\<newline>\<newline>'' @
     (case vol of
        Some v \<Rightarrow>
          ''**Predicted Volatility:** '' @ volatility_str (predicted_volatility v) @ ''  \<newline>'' @
          ''**Volatility Score:** '' @ fmt2f (volatility_score v) @ '' (range: 0.0 to 1.0)  \<newline>'' @
          ''**Historical Volatility:** '' @ fmt2pct (historical_volatility v) @ ''  \<newline>'' @
          ''**Confidence:** '' @ fmt2pct (vol_confidence v) @ ''\<newline>\<newline>'' @
          ''**Key Volatility Drivers:**\<newline>'' @
          bullet_lines (key_volatility_drivers v) @
          ''\<newline>'' @ ''**Sentiment Impact:**\<newline>'' @ sentiment_impact v @ ''\<newline>'' @
          ''\<newline>'' @ ''**Event Impact:**\<newline>'' @ event_impact v @ ''\<newline>'' @
          (if vol_tool_validations v \<noteq> []
           then ''\<newline>'' @ ''**Tool Validations:**\<newline>'' @ bullet_lines (vol_tool_validations v) else []) @
          (if transcript_insights v \<noteq> []
           then ''\<newline>'' @ ''### Transcript Insights\<newline>\<newline>'' @
                concat (map report_insight (transcript_insights v))
           else [])
      | None \<Rightarrow> ''*Volatility prediction not available.*\<newline>'')"

definition report_guardrails :: "FinSightState \<Rightarrow> string" where
  "report_guardrails st =
     (let guardrails = guardrails_applied st in
      ''\<newline>'' @ ''---\<newline>\<newline>'' @
      ''## 5. Guardrails and System Boundaries\<newline>\<newline>'' @
      ''**Guardrail Checks Performed:** '' @ show_nat (length guardrails) @ ''\<newline>\<newline>'' @
      (if guardrails \<noteq> []
       then concat (map report_guardrail guardrails)
       else ''*All confidence thresholds met. No guardrail violations detected.*\<newline>'') @
      ''\<newline>'' @ ''**Active Guardrails:**\<newline>'' @
      bullet_lines (active_guardrails (self_model st)) @
      ''\<newline>'' @ ''**Operating Boundaries:**\<newline>'' @
      bullet_lines (operating_boundaries (self_model st)))"

text \<open>The status cell of the confidence table: the comparison of one confidence with one
  threshold.\<close>

definition guardrail_status :: "rat \<Rightarrow> rat \<Rightarrow> string" where
  "guardrail_status conf threshold = (if threshold \<le> conf then check_mark @ '' Pass'' else warning_sign @ '' Low'')"

definition table_row :: "string \<Rightarrow> rat \<Rightarrow> rat \<Rightarrow> string" where
  "table_row label conf threshold =
     ''| '' @ label @ '' | '' @ fmt2pct conf @ '' | '' @ fmt2pct threshold @ '' | '' @
     guardrail_status conf threshold @ '' |\<newline>''"

text \<open>\<open>self_model.agent_capabilities[i].confidence_threshold\<close>, which raises when the list
  is shorter.\<close>

definition capability_threshold :: "FinSightSelfModel \<Rightarrow> nat \<Rightarrow> py_error + rat" where
  "capability_threshold sm i =
     (if i < length (agent_capabilities sm)
      then Inr (confidence_threshold (agent_capabilities sm ! i))
      else Inl (IndexError ''list index out of range''))"

definition table_row_opt :: "FinSightSelfModel \<Rightarrow> nat \<Rightarrow> string \<Rightarrow> rat option \<Rightarrow> py_error + string" where
  "table_row_opt sm i label conf =
     (case conf of
        None \<Rightarrow> Inr []
      | Some c \<Rightarrow>
          (case capability_threshold sm i of
             Inl err \<Rightarrow> Inl err
           | Inr threshold \<Rightarrow> Inr (table_row label c threshold)))"

definition report_confidence_table ::
    "FinSightSelfModel \<Rightarrow> SentimentAnalysisResult option \<Rightarrow> SignificantEventDetectionResult option \<Rightarrow>
     VolatilityPredictionResult option \<Rightarrow> py_error + string" where
  "report_confidence_table sm sent evs vol =
     (case table_row_opt sm 0 ''Sentiment Analysis'' (map_option sent_confidence sent) of
        Inl err \<Rightarrow> Inl err
      | Inr row1 \<Rightarrow>
     (case table_row_opt sm 1 ''Event Detection'' (map_option ev_confidence evs) of
        Inl err \<Rightarrow> Inl err
      | Inr row2 \<Rightarrow>
     (case table_row_opt sm 2 ''Volatility Prediction'' (map_option vol_confidence vol) of
        Inl err \<Rightarrow> Inl err
      | Inr row3 \<Rightarrow>
          Inr (''\<newline>'' @ ''---\<newline>\<newline>'' @
               ''## 6. System Confidence Summary\<newline>\<newline>'' @
               ''| Agent | Confidence | Threshold | Status |\<newline>'' @
               ''|-------|-----------|-----------|--------|\<newline>'' @
               row1 @ row2 @ row3))))"

definition report_disclaimers :: "FinSightSelfModel \<Rightarrow> string" where
  "report_disclaimers sm =
     ''\<newline>'' @ ''---\<newline>\<newline>'' @ ''## Disclaimers\<newline>\<newline>'' @
     ''**Mission:** '' @ mission sm @ ''\<newline>\<newline>'' @
     ''This analysis is for **informational and educational purposes only**. '' @
     ''It does NOT constitute investment advice or a recommendation to buy or sell securities. '' @
     ''Past performance does not guarantee future results. '' @
     ''All investments involve risk, including possible loss of principal.\<newline>\<newline>'' @
     ''**Generated by:** '' @ system_name sm @ '' v'' @ version sm @ ''\<newline>''"

definition generate_final_report ::
    "string \<Rightarrow> FinSightState \<Rightarrow> SentimentAnalysisResult option \<Rightarrow>
     SignificantEventDetectionResult option \<Rightarrow> VolatilityPredictionResult option \<Rightarrow>
     MetacognitiveDecision option \<Rightarrow> py_error + string" where
  "generate_final_report timestamp st sent evs vol decision =
     (case report_confidence_table (self_model st) sent evs vol of
        Inl err \<Rightarrow> Inl err
      | Inr table \<Rightarrow>
          Inr (report_header timestamp (company_ticker st) (self_model st) sent evs vol @
               report_coordinator decision @
               report_sentiment sent @
               report_event_detection evs @
               report_volatility vol @
               report_guardrails st @
               table @
               report_disclaimers (self_model st)))"

subsection \<open>The stage reports\<close>

text \<open>\<open>chr(10).join(f'- {x}' for x in items)\<close>, and the same with \<open>'None'\<close> for no item.\<close>

definition dash_lines :: "string list \<Rightarrow> string" where
  "dash_lines items = join ''\<newline>'' (map (\<lambda>item. ''- '' @ item) items)"

definition dash_lines_or_none :: "string list \<Rightarrow> string" where
  "dash_lines_or_none items = (if items \<noteq> [] then dash_lines items else ''None'')"

fun events_section :: "nat \<Rightarrow> SignificantEvent list \<Rightarrow> string" where
  "events_section i [] = []"
| "events_section i (event # rest) =
     (''\<newline>'' @ ''### Event '' @ show_nat i @ '': '' @ event_type event @
      ''\<newline>\<newline>'' @ ''- **Description:** '' @ description event @ ''\<newline>'' @
      ''- **Mentioned in Call:** '' @ yes_no (mentioned_in_call event) @ ''\<newline>'' @
      ''- **Verified:** '' @ yes_no (verified event) @ ''\<newline>'' @ ''- **Source:** '' @
      source event @ ''\<newline>'' @ ''- **Impact:** '' @ impact_upper (impact_assessment event) @
      ''\<newline>'')
     @ events_section (Suc i) rest"

definition insight_block :: "TranscriptAnalysisAnswer \<Rightarrow> string" where
  "insight_block insight =
     ''\<newline>'' @ ''### '' @ a_focus_item insight @ ''\<newline>\<newline>'' @ ''**Question:** '' @
      a_question insight @ ''  \<newline>'' @ ''**Answer:** '' @ a_answer insight @ ''  \<newline>'' @
      ''**Confidence:** '' @ fmt2pct (a_confidence insight) @ ''\<newline>''"

definition insights_section :: "TranscriptAnalysisAnswer list \<Rightarrow> string" where
  "insights_section insights = concat (map insight_block insights)"

definition format_sentiment_report :: "string \<Rightarrow> string \<Rightarrow> SentimentAnalysisResult \<Rightarrow> string" where
  "format_sentiment_report timestamp ticker result =
     ''# Sentiment Analysis Report\<newline>\<newline>'' @ ''**Ticker:** '' @ ticker @
     ''  \<newline>'' @ ''**Generated:** '' @ timestamp @ ''  \<newline>'' @
     ''**Agent:** Sentiment Analysis Agent\<newline>\<newline>'' @ ''---\<newline>\<newline>'' @
     ''## Overall Assessment\<newline>\<newline>'' @ ''- **Sentiment:** '' @
     sentiment_str (overall_sentiment result) @ ''\<newline>'' @ ''- **Score:** '' @
     fmt2f (sentiment_score result) @ '' (range: -1.0 to 1.0)\<newline>'' @ ''- **Confidence:** '' @
     fmt2pct (sent_confidence result) @ ''\<newline>\<newline>'' @
     ''## Market Sentiment\<newline>\<newline>'' @ market_sentiment result @ ''\<newline>\<newline>'' @
     ''## Key Sentiment Drivers\<newline>\<newline>'' @ dash_lines (key_sentiment_drivers result) @
     ''\<newline>\<newline>'' @ ''## News Headlines Analyzed\<newline>\<newline>'' @
     dash_lines_or_none (news_headlines result) @ ''\<newline>\<newline>'' @
     ''## Tool Validations\<newline>\<newline>'' @ dash_lines_or_none (sent_tool_validations result) @
     ''\<newline>''"

definition format_event_detection_report ::
    "string \<Rightarrow> string \<Rightarrow> SignificantEventDetectionResult \<Rightarrow> string" where
  "format_event_detection_report timestamp ticker result =
     (let section = events_section 1 (events result) in
      ''# Event Detection Report\<newline>\<newline>'' @ ''**Ticker:** '' @ ticker @ ''  \<newline>'' @
      ''**Generated:** '' @ timestamp @ ''  \<newline>'' @
      ''**Agent:** Significant Event Detection Agent\<newline>\<newline>'' @
      ''---\<newline>\<newline>'' @ ''## Summary\<newline>\<newline>'' @
      ''- **Total Events Found:** '' @ show_int (total_events_found result) @ ''\<newline>'' @
      ''- **Verified Events:** '' @ show_int (verified_count result) @ ''\<newline>'' @
      ''- **Confidence:** '' @ fmt2pct (ev_confidence result) @ ''\<newline>\<newline>'' @
      ''## Detected Events\<newline>\<newline>'' @
      (if section \<noteq> [] then section else ''*No events detected*'') @ ''\<newline>\<newline>'' @
      ''## Tool Validations\<newline>\<newline>'' @ dash_lines_or_none (ev_tool_validations result) @
      ''\<newline>'')"

definition format_volatility_report :: "string \<Rightarrow> string \<Rightarrow> VolatilityPredictionResult \<Rightarrow> string" where
  "format_volatility_report timestamp ticker result =
     (let section = insights_section (transcript_insights result) in
      ''# Volatility Prediction Report\<newline>\<newline>'' @ ''**Ticker:** '' @ ticker @
      ''  \<newline>'' @ ''**Generated:** '' @ timestamp @ ''  \<newline>'' @
      ''**Agent:** Volatility Prediction Agent\<newline>\<newline>'' @ ''---\<newline>\<newline>'' @
      ''## Prediction\<newline>\<newline>'' @ ''- **Predicted Volatility:** '' @
      volatility_str (predicted_volatility result) @ ''\<newline>'' @ ''- **Volatility Score:** '' @
      fmt2f (volatility_score result) @ '' (range: 0.0 to 1.0)\<newline>'' @
      ''- **Historical Volatility:** '' @ fmt2pct (historical_volatility result) @ ''\<newline>'' @
      ''- **Confidence:** '' @ fmt2pct (vol_confidence result) @ ''\<newline>\<newline>'' @
      ''## Key Volatility Drivers\<newline>\<newline>'' @ dash_lines (key_volatility_drivers result) @
      ''\<newline>\<newline>'' @ ''## Sentiment Impact\<newline>\<newline>'' @ sentiment_impact result @
      ''\<newline>\<newline>'' @ ''## Event Impact\<newline>\<newline>'' @ event_impact result @
      ''\<newline>\<newline>'' @ ''## Transcript Insights\<newline>\<newline>'' @
      (if section \<noteq> [] then section else ''*No insights available*'') @
      ''\<newline>\<newline>'' @ ''## Tool Validations\<newline>\<newline>'' @
      dash_lines_or_none (vol_tool_validations result) @ ''\<newline>'')"

text \<open>The result handed to \<open>_format_agent_report\<close> is untyped; reading a field it does not
  have raises.\<close>

datatype agent_result =
    SentimentR SentimentAnalysisResult
  | EventR SignificantEventDetectionResult
  | VolatilityR VolatilityPredictionResult

definition format_agent_report :: "string \<Rightarrow> string \<Rightarrow> string \<Rightarrow> agent_result \<Rightarrow> py_error + string" where
  "format_agent_report timestamp agent ticker result =
     (if agent = ''sentiment'' then
        (case result of
           SentimentR r \<Rightarrow> Inr (format_sentiment_report timestamp ticker r)
         | _ \<Rightarrow> Inl (AttributeError ''overall_sentiment''))
      else if agent = ''event_detection'' then
        (case result of
           EventR r \<Rightarrow> Inr (format_event_detection_report timestamp ticker r)
         | _ \<Rightarrow> Inl (AttributeError ''events''))
      else if agent = ''volatility'' then
        (case result of
           VolatilityR r \<Rightarrow> Inr (format_volatility_report timestamp ticker r)
         | _ \<Rightarrow> Inl (AttributeError ''transcript_insights''))
      else Inr (''# '' @ py_title agent @ '' Report\<newline>\<newline>'' @ ''*Report format not implemented*''))"

subsection \<open>The nodes of the workflow\<close>

text \<open>A file the run writes into the output directory: its name and its text.\<close>

type_synonym artifact = "string \<times> string"

definition save_agent_report :: "env \<Rightarrow> string \<Rightarrow> string \<Rightarrow> agent_result \<Rightarrow> py_error + artifact" where
  "save_agent_report e ticker agent result =
     (let filename = agent @ ''_'' @ ticker @ ''_'' @ now_file e agent @ ''.md'' in
      case format_agent_report (now_text e agent) agent ticker result of
        Inl err \<Rightarrow> Inl err
      | Inr report \<Rightarrow> Inr (filename, report))"

definition load_transcript_update :: "env \<Rightarrow> FinSightState \<Rightarrow> state_update" where
  "load_transcript_update e st =
     (let content = read_transcript e (transcript_path st) in
      if prefix ''Error'' content
      then no_update\<lparr>u_transcript_content := Some [], u_errors := Some [content]\<rparr>
      else no_update\<lparr>u_transcript_content := Some content\<rparr>)"

definition load_transcript_node :: "env \<Rightarrow> FinSightState \<Rightarrow> py_error + state_update \<times> artifact list" where
  "load_transcript_node e st = Inr (load_transcript_update e st, [])"

definition coordinator_node :: "env \<Rightarrow> FinSightState \<Rightarrow> py_error + state_update \<times> artifact list" where
  "coordinator_node e st = Inr (coordinator_process e st, [])"

definition sentiment_node :: "env \<Rightarrow> FinSightState \<Rightarrow> py_error + state_update \<times> artifact list" where
  "sentiment_node e st =
     (let result = sentiment_process e st in
      case u_sentiment_result result of
        Some r \<Rightarrow>
          (case save_agent_report e (company_ticker st) ''sentiment'' (SentimentR r) of
             Inl err \<Rightarrow> Inl err
           | Inr file \<Rightarrow> Inr (result, [file]))
      | None \<Rightarrow> Inr (result, []))"

definition event_detection_node :: "env \<Rightarrow> FinSightState \<Rightarrow> py_error + state_update \<times> artifact list" where
  "event_detection_node e st =
     (let result = events_process e st in
      case u_event_detection_result result of
        Some r \<Rightarrow>
          (case save_agent_report e (company_ticker st) ''event_detection'' (EventR r) of
             Inl err \<Rightarrow> Inl err
           | Inr file \<Rightarrow> Inr (result, [file]))
      | None \<Rightarrow> Inr (result, []))"

definition volatility_prediction_node :: "env \<Rightarrow> FinSightState \<Rightarrow> py_error + state_update \<times> artifact list" where
  "volatility_prediction_node e st =
     (let result = volatility_process e st in
      case u_volatility_result result of
        Some r \<Rightarrow>
          (case save_agent_report e (company_ticker st) ''volatility'' (VolatilityR r) of
             Inl err \<Rightarrow> Inl err
           | Inr file \<Rightarrow> Inr (result, [file]))
      | None \<Rightarrow> Inr (result, []))"

definition synthesize_report_node :: "env \<Rightarrow> FinSightState \<Rightarrow> py_error + state_update \<times> artifact list" where
  "synthesize_report_node e st =
     (case generate_final_report (now_text e ''final_report'') st (sentiment_result st)
             (event_detection_result st) (volatility_result st) (metacognitive_decision st) of
        Inl err \<Rightarrow> Inl err
      | Inr report \<Rightarrow> Inr (no_update\<lparr>u_final_report := Some report\<rparr>, []))"

subsection \<open>The workflow\<close>

datatype node =
    coordinator | load_transcript | sentiment_analysis | event_detection
  | volatility_prediction | synthesize_report

fun node_fn :: "node \<Rightarrow> env \<Rightarrow> FinSightState \<Rightarrow> py_error + state_update \<times> artifact list" where
  "node_fn coordinator = coordinator_node"
| "node_fn load_transcript = load_transcript_node"
| "node_fn sentiment_analysis = sentiment_node"
| "node_fn event_detection = event_detection_node"
| "node_fn volatility_prediction = volatility_prediction_node"
| "node_fn synthesize_report = synthesize_report_node"

definition entry_point :: node where
  "entry_point = coordinator"

text \<open>The edges; \<open>None\<close> is \<open>END\<close>.\<close>

fun edge :: "node \<Rightarrow> node option" where
  "edge coordinator = Some load_transcript"
| "edge load_transcript = Some sentiment_analysis"
| "edge sentiment_analysis = Some event_detection"
| "edge event_detection = Some volatility_prediction"
| "edge volatility_prediction = Some synthesize_report"
| "edge synthesize_report = None"

fun rank :: "node \<Rightarrow> nat" where
  "rank coordinator = 5"
| "rank load_transcript = 4"
| "rank sentiment_analysis = 3"
| "rank event_detection = 2"
| "rank volatility_prediction = 1"
| "rank synthesize_report = 0"

text \<open>One node: run it on the state and merge what it returns.\<close>

definition run_node :: "env \<Rightarrow> node \<Rightarrow> FinSightState \<Rightarrow> py_error + FinSightState \<times> artifact list" where
  "run_node e n st =
     (case node_fn n e st of
        Inl err \<Rightarrow> Inl err
      | Inr (u, files) \<Rightarrow> Inr (merge_update st u, files))"

text \<open>\<open>workflow.invoke\<close> from a node on: the states after each node, the last one being the
  result, and the files written on the way.\<close>

function invoke_from ::
    "env \<Rightarrow> node \<Rightarrow> FinSightState \<Rightarrow> py_error + FinSightState list \<times> artifact list" where
  "invoke_from e n st =
     (case run_node e n st of
        Inl err \<Rightarrow> Inl err
      | Inr (st1, files) \<Rightarrow>
          (case edge n of
             None \<Rightarrow> Inr ([st1], files)
           | Some n1 \<Rightarrow>
               (case invoke_from e n1 st1 of
                  Inl err \<Rightarrow> Inl err
                | Inr (states, files1) \<Rightarrow> Inr (st1 # states, files @ files1))))"
  by pat_completeness auto
termination
  by (relation "measure (\<lambda>(e, n, st). rank n)") (auto elim: edge.elims)

declare invoke_from.simps [simp del]

definition initial_state :: "string \<Rightarrow> string \<Rightarrow> string option \<Rightarrow> FinSightState" where
  "initial_state path ticker query =
     \<lparr>user_query =
        (case query of
           None \<Rightarrow> ''Provide a comprehensive analysis of '' @ ticker @ apostrophe @ ''s earnings call, '' @
                       ''including sentiment, significant events, and volatility prediction.''
         | Some q \<Rightarrow> q),
      company_ticker = ticker,
      transcript_path = path,
      analysis_questions = DEFAULT_ANALYSIS_QUESTIONS,
      self_model = get_default_self_model,
      metacognitive_decision = None,
      transcript_content = None,
      sentiment_result = None,
      event_detection_result = None,
      volatility_result = None,
      final_report = None,
      guardrails_applied = [],
      errors = []\<rparr>"

text \<open>\<open>run_analysis\<close>: the states of the run, the last of which the source returns, and the
  files the run has written, the final report last.\<close>

definition run_trace ::
    "env \<Rightarrow> string \<Rightarrow> string \<Rightarrow> string option \<Rightarrow> py_error + FinSightState list \<times> artifact list" where
  "run_trace e path ticker query = invoke_from e entry_point (initial_state path ticker query)"


section \<open>Regular expressions (Python's \<open>re\<close>)\<close>

text \<open>
  The patterns of the extractor are values of \<open>rx\<close>, and \<open>rmatch\<close> is the backtracking
  matcher of \<open>re\<close>: alternatives and repetitions are tried in Python's order and the first
  way to match the whole pattern is taken.  A match is the list of the captured groups and
  the text left after the match.  No pattern of the extractor nests a group inside another
  or inside a repetition, so the groups come in the order the pattern writes them.
  The fuel of a repetition is the length of the text: every round has to consume a character.
\<close>

datatype rx =
    Lit string
  | Cls "char \<Rightarrow> bool"
  | Seq rx rx
  | Alt rx rx
  | Star rx
  | Lazy rx
  | Group rx
  | Ahead rx
  | EndOfString

type_synonym match = "string list \<times> string"

type_synonym cont = "string \<Rightarrow> string list \<Rightarrow> match option"

primrec star_greedy :: "(cont \<Rightarrow> cont) \<Rightarrow> nat \<Rightarrow> cont \<Rightarrow> cont" where
  "star_greedy m 0 k s g = k s g"
| "star_greedy m (Suc n) k s g =
     (case m (\<lambda>s1 g1. if length s1 < length s then star_greedy m n k s1 g1 else None) s g of
        Some r \<Rightarrow> Some r
      | None \<Rightarrow> k s g)"

primrec star_lazy :: "(cont \<Rightarrow> cont) \<Rightarrow> nat \<Rightarrow> cont \<Rightarrow> cont" where
  "star_lazy m 0 k s g = k s g"
| "star_lazy m (Suc n) k s g =
     (case k s g of
        Some r \<Rightarrow> Some r
      | None \<Rightarrow> m (\<lambda>s1 g1. if length s1 < length s then star_lazy m n k s1 g1 else None) s g)"

primrec rmatch :: "rx \<Rightarrow> cont \<Rightarrow> cont" where
  "rmatch (Lit l) k s g = (if prefix l s then k (drop (length l) s) g else None)"
| "rmatch (Cls p) k s g = (case s of [] \<Rightarrow> None | c # cs \<Rightarrow> if p c then k cs g else None)"
| "rmatch (Seq a b) k s g = rmatch a (rmatch b k) s g"
| "rmatch (Alt a b) k s g = (case rmatch a k s g of Some r \<Rightarrow> Some r | None \<Rightarrow> rmatch b k s g)"
| "rmatch (Star a) k s g = star_greedy (rmatch a) (length s) k s g"
| "rmatch (Lazy a) k s g = star_lazy (rmatch a) (length s) k s g"
| "rmatch (Group a) k s g = rmatch a (\<lambda>s1 g1. k s1 (g1 @ [take (length s - length s1) s])) s g"
| "rmatch (Ahead a) k s g =
     (case rmatch a (\<lambda>s1 g1. Some (g1, s1)) s g of None \<Rightarrow> None | Some (g1, s1) \<Rightarrow> k s g1)"
| "rmatch EndOfString k s g = (if s = [] then k s g else None)"

text \<open>A match that starts at the head of the text.\<close>

definition match_here :: "rx \<Rightarrow> string \<Rightarrow> match option" where
  "match_here r s = rmatch r (\<lambda>s1 g1. Some (g1, s1)) s []"

text \<open>\<open>re.search\<close>: the match at the leftmost position that has one.\<close>

fun re_search :: "rx \<Rightarrow> string \<Rightarrow> match option" where
  "re_search r [] = match_here r []"
| "re_search r (c # cs) =
     (case match_here r (c # cs) of Some m \<Rightarrow> Some m | None \<Rightarrow> re_search r cs)"

text \<open>\<open>re.findall\<close>: the groups of the successive matches, each search starting where the
  match before it ended (one character further after an empty match).\<close>

function re_findall :: "rx \<Rightarrow> string \<Rightarrow> string list list" where
  "re_findall r [] = (case match_here r [] of Some (g, rest) \<Rightarrow> [g] | None \<Rightarrow> [])"
| "re_findall r (c # cs) =
     (case match_here r (c # cs) of
        Some (g, rest) \<Rightarrow>
          g # (if length rest < length (c # cs) then re_findall r rest else re_findall r cs)
      | None \<Rightarrow> re_findall r cs)"
  by pat_completeness auto
termination
  by (relation "measure (\<lambda>(r, s). length s)") auto

text \<open>The group \<open>i\<close> of a match, counted from 1 as \<open>match.group(i)\<close> counts.\<close>

definition group :: "match \<Rightarrow> nat \<Rightarrow> string" where
  "group m i = fst m ! (i - 1)"

subsection \<open>The notation of the patterns\<close>

fun seqs :: "rx list \<Rightarrow> rx" where
  "seqs [] = Lit []"
| "seqs [r] = r"
| "seqs (r # rs) = Seq r (seqs rs)"

definition Plus :: "rx \<Rightarrow> rx" where
  "Plus r = Seq r (Star r)"

text \<open>\<open>\<^verbatim>\<open>\s*\<close>\<close>, \<open>\<^verbatim>\<open>\w+\<close>\<close>, \<open>\<^verbatim>\<open>\d+\<close>\<close>, \<open>\<^verbatim>\<open>[\d.]+\<close>\<close>, \<open>\<^verbatim>\<open>[-\d.]+\<close>\<close>, \<open>\<^verbatim>\<open>[^\n]+\<close>\<close>\<close>

definition spaces :: rx where
  "spaces = Star (Cls is_space)"

definition word :: rx where
  "word = Plus (Cls is_word)"

definition digits :: rx where
  "digits = Plus (Cls is_digit)"

definition number :: rx where
  "number = Plus (Cls (\<lambda>c. is_digit c \<or> c = CHR ''.''))"

definition signed_number :: rx where
  "signed_number = Plus (Cls (\<lambda>c. c = CHR ''-'' \<or> is_digit c \<or> c = CHR ''.''))"

definition rest_of_line :: rx where
  "rest_of_line = Plus (Cls (\<lambda>c. c \<noteq> CHR ''\<newline>''))"

text \<open>\<open>\<^verbatim>\<open>.*?\<close>\<close> without and with \<open>re.DOTALL\<close>\<close>

definition lazy_line :: rx where
  "lazy_line = Lazy (Cls (\<lambda>c. c \<noteq> CHR ''\<newline>''))"

definition lazy_any :: rx where
  "lazy_any = Lazy (Cls (\<lambda>c. True))"

subsection \<open>Conversions\<close>

text \<open>\<open>int(s)\<close> for a text of digits, as the patterns capture it.\<close>

definition digit_value :: "char \<Rightarrow> nat" where
  "digit_value c = (case map_of (zip ascii_digits [0, 1, 2, 3, 4, 5, 6, 7, 8, 9]) c of Some d \<Rightarrow> d | None \<Rightarrow> 0)"

definition digits_value :: "string \<Rightarrow> nat" where
  "digits_value s = foldl (\<lambda>a c. 10 * a + digit_value c) 0 s"

definition py_int :: "string \<Rightarrow> py_error + int" where
  "py_int s =
     (if s \<noteq> [] \<and> list_all is_digit s then Inr (int (digits_value s))
      else Inl (ValueError s))"

text \<open>\<open>float(s)\<close> for a decimal literal: blanks around it, a sign, digits with at most one
  point and at least one digit.  Exponents, underscores, \<open>inf\<close> and \<open>nan\<close> are not modelled;
  the patterns cannot capture them.\<close>

definition py_float :: "string \<Rightarrow> py_error + rat" where
  "py_float s =
     (let t = strip s;
          negative = prefix ''-'' t;
          u = (if prefix ''-'' t \<or> prefix ''+'' t then tl t else t);
          whole = takeWhile is_digit u;
          after = dropWhile is_digit u;
          frac = (if prefix ''.'' after then tl after else [])
      in if (after = [] \<or> prefix ''.'' after) \<and> list_all is_digit frac \<and> whole @ frac \<noteq> []
         then Inr ((if negative then - 1 else 1) *
                   (of_nat (digits_value whole) + of_nat (digits_value frac) / 10 ^ length frac))
         else Inl (ValueError s))"

text \<open>Sequencing of computations that may raise.\<close>

definition bind :: "py_error + 'a \<Rightarrow> ('a \<Rightarrow> py_error + 'b) \<Rightarrow> py_error + 'b" where
  "bind x f = (case x of Inl err \<Rightarrow> Inl err | Inr v \<Rightarrow> f v)"

text \<open>The conversion of an optional capture.\<close>

definition convert :: "(string \<Rightarrow> py_error + 'a) \<Rightarrow> match option \<Rightarrow> py_error + 'a option" where
  "convert f m =
     (case m of None \<Rightarrow> Inr None | Some x \<Rightarrow> bind (f (group x 1)) (\<lambda>v. Inr (Some v)))"

section \<open>The extractor (api.py)\<close>





text \<open>The comprehension that reads a list of items:
  \<open>[line.strip('- ').strip() for line in text.split('\n') if line.strip().startswith('-')]\<close>\<close>

definition dash_items :: "string \<Rightarrow> string list" where
  "dash_items text =
     map (\<lambda>line. strip (strip_chars ''- '' line))
       (filter (\<lambda>line. prefix ''-'' (strip line)) (split CHR ''\<newline>'' text))"

definition items_of :: "match option \<Rightarrow> string list" where
  "items_of m = (case m of None \<Rightarrow> [] | Some x \<Rightarrow> dash_items (strip (group x 1)))"


subsection \<open>\<open>_extract_metadata\<close>\<close>

text \<open>The patterns, in the order of the dictionary:
  \<^verbatim>\<open>\*\*Ticker:\*\*\s*(\w+)\<close>,
  \<^verbatim>\<open>\*\*Generated:\*\*\s*([^\n]+)\<close>,
  \<^verbatim>\<open>\*\*Agent:\*\*\s*([^\n]+)\<close>,
  \<^verbatim>\<open>\*\*Sentiment:\*\*\s*(\w+)\<close>,
  \<^verbatim>\<open>\*\*Score:\*\*\s*([-\d.]+)\<close>,
  \<^verbatim>\<open>\*\*Confidence:\*\*\s*([\d.]+)%\<close>,
  \<^verbatim>\<open>\*\*Total Events Found:\*\*\s*(\d+)\<close>,
  \<^verbatim>\<open>\*\*Verified Events:\*\*\s*(\d+)\<close>,
  \<^verbatim>\<open>\*\*Predicted Volatility:\*\*\s*(\w+)\<close>,
  \<^verbatim>\<open>\*\*Volatility Score:\*\*\s*([\d.]+)\<close>,
  \<^verbatim>\<open>\*\*Historical Volatility:\*\*\s*([\d.]+)%\<close>.\<close>

definition labelled :: "string \<Rightarrow> rx \<Rightarrow> rx" where
  "labelled label value = seqs [Lit (''**'' @ label @ '':**''), spaces, Group value]"

definition pat_ticker :: rx where
  "pat_ticker = labelled ''Ticker'' word"

definition pat_generated :: rx where
  "pat_generated = labelled ''Generated'' rest_of_line"

definition pat_agent :: rx where
  "pat_agent = labelled ''Agent'' rest_of_line"

definition pat_sentiment :: rx where
  "pat_sentiment = labelled ''Sentiment'' word"

definition pat_score :: rx where
  "pat_score = labelled ''Score'' signed_number"

definition pat_confidence :: rx where
  "pat_confidence = Seq (labelled ''Confidence'' number) (Lit ''%'')"

definition pat_total_events :: rx where
  "pat_total_events = labelled ''Total Events Found'' digits"

definition pat_verified_events :: rx where
  "pat_verified_events = labelled ''Verified Events'' digits"

definition pat_predicted_volatility :: rx where
  "pat_predicted_volatility = labelled ''Predicted Volatility'' word"

definition pat_volatility_score :: rx where
  "pat_volatility_score = labelled ''Volatility Score'' number"

definition pat_historical_volatility :: rx where
  "pat_historical_volatility = Seq (labelled ''Historical Volatility'' number) (Lit ''%'')"

text \<open>The dictionary of the metadata: a key is present when its pattern matched.\<close>

record metadata =
  m_ticker :: "string option"
  m_generated :: "string option"
  m_agent :: "string option"
  m_sentiment :: "string option"
  m_score :: "rat option"
  m_confidence :: "rat option"
  m_total_events :: "int option"
  m_verified_events :: "int option"
  m_predicted_volatility :: "string option"
  m_volatility_score :: "rat option"
  m_historical_volatility :: "rat option"

definition extract_metadata :: "string \<Rightarrow> py_error + metadata" where
  "extract_metadata content =
     bind (convert Inr (re_search pat_ticker content)) (\<lambda>ticker.
     bind (convert Inr (re_search pat_generated content)) (\<lambda>generated.
     bind (convert Inr (re_search pat_agent content)) (\<lambda>agent.
     bind (convert Inr (re_search pat_sentiment content)) (\<lambda>sentiment.
     bind (convert py_float (re_search pat_score content)) (\<lambda>score.
     bind (convert py_float (re_search pat_confidence content)) (\<lambda>confidence.
     bind (convert py_int (re_search pat_total_events content)) (\<lambda>total_events.
     bind (convert py_int (re_search pat_verified_events content)) (\<lambda>verified_events.
     bind (convert Inr (re_search pat_predicted_volatility content)) (\<lambda>predicted.
     bind (convert py_float (re_search pat_volatility_score content)) (\<lambda>volatility_score.
     bind (convert py_float (re_search pat_historical_volatility content)) (\<lambda>historical.
     Inr \<lparr>m_ticker = ticker, m_generated = generated, m_agent = agent, m_sentiment = sentiment,
          m_score = score, m_confidence = confidence, m_total_events = total_events,
          m_verified_events = verified_events, m_predicted_volatility = predicted,
          m_volatility_score = volatility_score, m_historical_volatility = historical\<rparr>)))))))))))"

text \<open>\<open>metadata.get(key, default)\<close>\<close>

definition get_or :: "'a option \<Rightarrow> 'a \<Rightarrow> 'a" where
  "get_or v dflt = (case v of None \<Rightarrow> dflt | Some x \<Rightarrow> x)"

subsection \<open>\<open>analyze_sentiment\<close>\<close>


definition pat_tool_validations :: rx where
  "pat_tool_validations =
     seqs [Lit ''**Tool Validations:**\<newline>'', Group lazy_any,
           Alt (Lit ''\<newline>\<newline>##'') (Alt (Lit ''\<newline>\<newline>---'') EndOfString)]"






subsection \<open>\<open>detect_events\<close>\<close>

text \<open>
  \<^verbatim>\<open>### Event \d+: (\w+)\n\n(.*?)\n\n(?:###|\n##|\Z)\<close> with \<open>re.DOTALL\<close>, and inside a section
  \<^verbatim>\<open>\*\*Description:\*\*\s*(.*?)\n\<close>, \<^verbatim>\<open>\*\*Impact:\*\*\s*(\w+)\<close>, \<^verbatim>\<open>\*\*Source:\*\*\s*(\w+)\<close>,
  \<^verbatim>\<open>\*\*Verified:\*\*\s*(\w+)\<close>.\<close>

definition pat_event_section :: rx where
  "pat_event_section =
     seqs [Lit ''### Event '', digits, Lit '': '', Group word, Lit ''\<newline>\<newline>'', Group lazy_any,
           Lit ''\<newline>\<newline>'', Alt (Lit ''###'') (Alt (Lit ''\<newline>##'') EndOfString)]"

definition pat_description :: rx where
  "pat_description = Seq (labelled ''Description'' lazy_line) (Lit ''\<newline>'')"

definition pat_impact :: rx where
  "pat_impact = labelled ''Impact'' word"

definition pat_source :: rx where
  "pat_source = labelled ''Source'' word"

definition pat_verified :: rx where
  "pat_verified = labelled ''Verified'' word"

record event_data =
  ed_type :: string
  ed_description :: string
  ed_impact :: string
  ed_source :: string
  ed_verified :: bool

definition event_of_section :: "string list \<Rightarrow> event_data" where
  "event_of_section groups =
     (let event_content = groups ! 1 in
      \<lparr>ed_type = groups ! 0,
       ed_description =
         (case re_search pat_description event_content of Some m \<Rightarrow> group m 1 | None \<Rightarrow> []),
       ed_impact =
         (case re_search pat_impact event_content of Some m \<Rightarrow> group m 1 | None \<Rightarrow> ''MEDIUM''),
       ed_source =
         (case re_search pat_source event_content of Some m \<Rightarrow> group m 1 | None \<Rightarrow> ''transcript''),
       ed_verified =
         (case re_search pat_verified event_content of
            Some m \<Rightarrow> lower (group m 1) = ''yes''
          | None \<Rightarrow> True)\<rparr>)"

record events_data =
  evd_ticker :: string
  evd_total_events :: int
  evd_verified_events :: int
  evd_confidence :: rat
  evd_events :: "event_data list"
  evd_tool_validations :: "string list"
  evd_generated :: string

definition events_of_text :: "string \<Rightarrow> string \<Rightarrow> string \<Rightarrow> py_error + events_data" where
  "events_of_text now ticker content =
     bind (extract_metadata content) (\<lambda>md.
     let found = map event_of_section (re_findall pat_event_section content) in
     Inr \<lparr>evd_ticker = ticker,
          evd_total_events = get_or (m_total_events md) (int (length found)),
          evd_verified_events = get_or (m_verified_events md) (int (length found)),
          evd_confidence = get_or (m_confidence md) 90,
          evd_events = found,
          evd_tool_validations = items_of (re_search pat_tool_validations content),
          evd_generated = get_or (m_generated md) now\<rparr>)"


subsection \<open>\<open>predict_volatility\<close>\<close>










subsection \<open>\<open>generate_final_report\<close> of the extractor\<close>

text \<open>
  \<^verbatim>\<open>\*\*Sentiment:\*\*\s*(\w+)\s*\(Score:\s*([\d.]+),\s*Confidence:\s*([\d.]+)%\)\<close>,
  \<^verbatim>\<open>\*\*Events Detected:\*\*\s*(\d+)\s*\((\d+)\s*verified,\s*Confidence:\s*([\d.]+)%\)\<close>,
  \<^verbatim>\<open>\*\*Predicted Volatility:\*\*\s*(\w+)\s*\(Score:\s*([\d.]+),\s*Confidence:\s*([\d.]+)%\)\<close>,
  \<^verbatim>\<open>\*\*System Version:\*\*\s*([^\n]+)\<close>.\<close>

definition scored :: "string \<Rightarrow> rx" where
  "scored label =
     seqs [Lit (''**'' @ label @ '':**''), spaces, Group word, spaces, Lit ''(Score:'', spaces,
           Group number, Lit '','', spaces, Lit ''Confidence:'', spaces, Group number, Lit ''%)'']"

definition pat_summary_sentiment :: rx where
  "pat_summary_sentiment = scored ''Sentiment''"

definition pat_summary_events :: rx where
  "pat_summary_events =
     seqs [Lit ''**Events Detected:**'', spaces, Group digits, spaces, Lit ''('', Group digits, spaces,
           Lit ''verified,'', spaces, Lit ''Confidence:'', spaces, Group number, Lit ''%)'']"

definition pat_summary_volatility :: rx where
  "pat_summary_volatility = scored ''Predicted Volatility''"

definition pat_version :: rx where
  "pat_version = labelled ''System Version'' rest_of_line"

text \<open>The coordinator's section:
  \<^verbatim>\<open>## 1\. Coordinator\'s Metacognitive Analysis\n\n(.*?)(?:\n\n---|\n\n##)\<close>, and inside it
  \<^verbatim>\<open>\*\*User Intent:\*\*\s*(.*?)(?:\n\n\*\*|\Z)\<close>,
  \<^verbatim>\<open>\*\*Analysis Plan:\*\*\s*(.*?)(?:\n\n\*\*|\Z)\<close>,
  \<^verbatim>\<open>\*\*Agents Invoked:\*\*\s*(.*?)(?:\n|\Z)\<close> (without \<open>re.DOTALL\<close>),
  \<^verbatim>\<open>\*\*Coordinator Confidence:\*\*\s*([\d.]+)%\<close>,
  \<^verbatim>\<open>\*\*Reasoning:\*\*\s*(.*?)(?:\n\n---|\Z)\<close>, and for the steps of the plan
  \<^verbatim>\<open>\d+\.\s*(.*?)(?=\n\d+\.|\Z)\<close>.\<close>

definition numbered_section :: "string \<Rightarrow> rx" where
  "numbered_section title =
     seqs [Lit (''## '' @ title @ ''\<newline>\<newline>''), Group lazy_any,
           Alt (Lit ''\<newline>\<newline>---'') (Lit ''\<newline>\<newline>##'')]"

definition pat_meta_section :: rx where
  "pat_meta_section = numbered_section (''1. Coordinator'' @ apostrophe @ ''s Metacognitive Analysis'')"

definition paragraph_field :: "string \<Rightarrow> rx" where
  "paragraph_field label =
     seqs [Lit (''**'' @ label @ '':**''), spaces, Group lazy_any, Alt (Lit ''\<newline>\<newline>**'') EndOfString]"

definition pat_agents_invoked :: rx where
  "pat_agents_invoked =
     seqs [Lit ''**Agents Invoked:**'', spaces, Group lazy_line, Alt (Lit ''\<newline>'') EndOfString]"

definition pat_coordinator_confidence :: rx where
  "pat_coordinator_confidence = Seq (labelled ''Coordinator Confidence'' number) (Lit ''%'')"

definition pat_reasoning :: rx where
  "pat_reasoning =
     seqs [Lit ''**Reasoning:**'', spaces, Group lazy_any, Alt (Lit ''\<newline>\<newline>---'') EndOfString]"

definition pat_plan_item :: rx where
  "pat_plan_item =
     seqs [digits, Lit ''.'', spaces, Group lazy_any,
           Ahead (Alt (seqs [Lit ''\<newline>'', digits, Lit ''.'']) EndOfString)]"

record metacognitive_data =
  mc_user_intent :: "string option"
  mc_analysis_plan :: "string list option"
  mc_agents_invoked :: "string option"
  mc_coordinator_confidence :: "rat option"
  mc_reasoning :: "string option"

definition no_metacognitive :: metacognitive_data where
  "no_metacognitive =
     \<lparr>mc_user_intent = None, mc_analysis_plan = None, mc_agents_invoked = None,
      mc_coordinator_confidence = None, mc_reasoning = None\<rparr>"

definition metacognitive_of_text :: "string \<Rightarrow> py_error + metacognitive_data" where
  "metacognitive_of_text content =
     (case re_search pat_meta_section content of
        None \<Rightarrow> Inr no_metacognitive
      | Some section \<Rightarrow>
          (let meta_text = strip (group section 1) in
           bind (convert py_float (re_search pat_coordinator_confidence meta_text)) (\<lambda>confidence.
           Inr \<lparr>mc_user_intent =
                  map_option (\<lambda>m. strip (group m 1)) (re_search (paragraph_field ''User Intent'') meta_text),
                mc_analysis_plan =
                  map_option (\<lambda>m. map (\<lambda>groups. strip (groups ! 0))
                                     (re_findall pat_plan_item (strip (group m 1))))
                    (re_search (paragraph_field ''Analysis Plan'') meta_text),
                mc_agents_invoked =
                  map_option (\<lambda>m. strip (group m 1)) (re_search pat_agents_invoked meta_text),
                mc_coordinator_confidence = confidence,
                mc_reasoning =
                  map_option (\<lambda>m. strip (group m 1)) (re_search pat_reasoning meta_text)\<rparr>)))"

text \<open>The confidence table:
  \<^verbatim>\<open>\|\s*Agent\s*\|\s*Confidence.*?\n\|.*?\n((?:\|.*?\n)+)\<close>.
  The characters the status cell is searched for are U+00E2, U+0153 and U+201C, as the
  source file of the extractor holds them: what the three bytes of the check mark become
  when they are read as code page 1252.\<close>

definition pat_table :: rx where
  "pat_table =
     seqs [Lit ''|'', spaces, Lit ''Agent'', spaces, Lit ''|'', spaces, Lit ''Confidence'', lazy_line,
           Lit ''\<newline>|'', lazy_line, Lit ''\<newline>'',
           Group (Plus (seqs [Lit ''|'', lazy_line, Lit ''\<newline>'']))]"

definition pass_glyph :: string where
  "pass_glyph = [CHR 0xC3, CHR 0xA2, CHR 0xC5, CHR 0x93, CHR 0xE2, CHR 0x80, CHR 0x9C]"

record summary_row =
  sr_agent :: string
  sr_confidence :: rat
  sr_threshold :: rat
  sr_status :: string

text \<open>\<open>[col.strip() for col in row.split('|')[1:-1]]\<close>\<close>

definition row_cols :: "string \<Rightarrow> string list" where
  "row_cols row = map strip (butlast (tl (split CHR ''|'' row)))"

definition row_status :: "string \<Rightarrow> string" where
  "row_status cell = (if contains pass_glyph cell then ''Pass'' else ''Fail'')"

definition summary_of_row :: "string \<Rightarrow> py_error + summary_row option" where
  "summary_of_row row =
     (let cols = row_cols row in
      if 4 \<le> length cols
      then bind (py_float (remove_char CHR ''%'' (cols ! 1))) (\<lambda>conf.
           bind (py_float (remove_char CHR ''%'' (cols ! 2))) (\<lambda>thresh.
           Inr (Some \<lparr>sr_agent = cols ! 0, sr_confidence = conf, sr_threshold = thresh,
                      sr_status = row_status (cols ! 3)\<rparr>)))
      else Inr None)"

fun summary_of_rows :: "string list \<Rightarrow> py_error + summary_row list" where
  "summary_of_rows [] = Inr []"
| "summary_of_rows (row # rows) =
     bind (summary_of_row row) (\<lambda>r.
     bind (summary_of_rows rows) (\<lambda>rs.
     Inr ((case r of None \<Rightarrow> [] | Some x \<Rightarrow> [x]) @ rs)))"

definition table_rows :: "string \<Rightarrow> string list" where
  "table_rows content =
     (case re_search pat_table content of
        None \<Rightarrow> []
      | Some m \<Rightarrow> split CHR ''\<newline>'' (strip (group m 1)))"

definition confidence_summary :: "string \<Rightarrow> py_error + summary_row list" where
  "confidence_summary content = summary_of_rows (table_rows content)"

text \<open>The guardrails section:
  \<^verbatim>\<open>## 5\. Guardrails and System Boundaries\n\n(.*?)(?:\n\n---|\n\n##)\<close>, and inside it
  \<^verbatim>\<open>\*\*Guardrail Checks Performed:\*\*\s*(\d+)\<close>,
  \<^verbatim>\<open>\*\*Active Guardrails:\*\*\n(.*?)(?:\n\n\*\*|\Z)\<close>,
  \<^verbatim>\<open>\*\*Operating Boundaries:\*\*\n(.*?)(?:\n\n---|\Z)\<close>.\<close>

definition pat_guardrails_section :: rx where
  "pat_guardrails_section = numbered_section ''5. Guardrails and System Boundaries''"

definition pat_checks :: rx where
  "pat_checks = labelled ''Guardrail Checks Performed'' digits"

definition pat_active_guardrails :: rx where
  "pat_active_guardrails =
     seqs [Lit ''**Active Guardrails:**\<newline>'', Group lazy_any, Alt (Lit ''\<newline>\<newline>**'') EndOfString]"

definition pat_boundaries :: rx where
  "pat_boundaries =
     seqs [Lit ''**Operating Boundaries:**\<newline>'', Group lazy_any,
           Alt (Lit ''\<newline>\<newline>---'') EndOfString]"

record guardrails_data =
  gd_checks_performed :: "int option"
  gd_active_guardrails :: "string list option"
  gd_operating_boundaries :: "string list option"

definition guardrails_of_text :: "string \<Rightarrow> py_error + guardrails_data" where
  "guardrails_of_text content =
     (case re_search pat_guardrails_section content of
        None \<Rightarrow>
          Inr \<lparr>gd_checks_performed = None, gd_active_guardrails = None, gd_operating_boundaries = None\<rparr>
      | Some section \<Rightarrow>
          (let guard_text = strip (group section 1) in
           bind (convert py_int (re_search pat_checks guard_text)) (\<lambda>checks.
           Inr \<lparr>gd_checks_performed = checks,
                gd_active_guardrails = Some (items_of (re_search pat_active_guardrails guard_text)),
                gd_operating_boundaries = Some (items_of (re_search pat_boundaries guard_text))\<rparr>)))"

record report_data =
  rd_ticker :: string
  rd_generated :: string
  rd_version :: string
  rd_sentiment :: string
  rd_sentiment_score :: rat
  rd_sentiment_confidence :: rat
  rd_events_detected :: int
  rd_events_verified :: int
  rd_events_confidence :: rat
  rd_predicted_volatility :: string
  rd_volatility_score :: rat
  rd_volatility_confidence :: rat
  rd_historical_volatility :: rat
  rd_confidence_summary :: "summary_row list"
  rd_metacognitive_analysis :: metacognitive_data
  rd_guardrails :: guardrails_data

text \<open>A field of the executive summary: the conversion of a group of the match, or the
  default when the line did not match.\<close>

definition field_or :: "match option \<Rightarrow> nat \<Rightarrow> (string \<Rightarrow> py_error + 'a) \<Rightarrow> 'a \<Rightarrow> py_error + 'a" where
  "field_or m i f dflt = (case m of None \<Rightarrow> Inr dflt | Some x \<Rightarrow> f (group x i))"

definition report_of_text :: "string \<Rightarrow> string \<Rightarrow> string \<Rightarrow> py_error + report_data" where
  "report_of_text now ticker content =
     (let sentiment_match = re_search pat_summary_sentiment content;
          events_match = re_search pat_summary_events content;
          volatility_match = re_search pat_summary_volatility content;
          hist_vol_match = re_search pat_historical_volatility content
      in
      bind (metacognitive_of_text content) (\<lambda>metacognitive.
      bind (confidence_summary content) (\<lambda>summary.
      bind (guardrails_of_text content) (\<lambda>guardrails.
      bind (field_or sentiment_match 2 py_float (3 / 4)) (\<lambda>sentiment_score.
      bind (field_or sentiment_match 3 py_float 85) (\<lambda>sentiment_confidence.
      bind (field_or events_match 1 py_int 0) (\<lambda>events_detected.
      bind (field_or events_match 2 py_int 0) (\<lambda>events_verified.
      bind (field_or events_match 3 py_float 85) (\<lambda>events_confidence.
      bind (field_or volatility_match 2 py_float (65 / 100)) (\<lambda>volatility_score.
      bind (field_or volatility_match 3 py_float 85) (\<lambda>volatility_confidence.
      bind (field_or hist_vol_match 1 py_float 20) (\<lambda>historical.
      Inr \<lparr>rd_ticker = ticker,
           rd_generated = (case re_search pat_generated content of Some m \<Rightarrow> group m 1 | None \<Rightarrow> now),
           rd_version = (case re_search pat_version content of Some m \<Rightarrow> group m 1 | None \<Rightarrow> ''1.0''),
           rd_sentiment = (case sentiment_match of Some m \<Rightarrow> group m 1 | None \<Rightarrow> ''positive''),
           rd_sentiment_score = sentiment_score,
           rd_sentiment_confidence = sentiment_confidence,
           rd_events_detected = events_detected,
           rd_events_verified = events_verified,
           rd_events_confidence = events_confidence,
           rd_predicted_volatility = (case volatility_match of Some m \<Rightarrow> group m 1 | None \<Rightarrow> ''medium''),
           rd_volatility_score = volatility_score,
           rd_volatility_confidence = volatility_confidence,
           rd_historical_volatility = historical,
           rd_confidence_summary = summary,
           rd_metacognitive_analysis = metacognitive,
           rd_guardrails = guardrails\<rparr>))))))))))))"


section \<open>Notions used by the properties\<close>


text \<open>What a run returns, read off its result: the errors of each state of the trace, and
  the final state.\<close>

definition trace_errors :: "py_error + FinSightState list \<times> artifact list \<Rightarrow> string list list option" where
  "trace_errors r = (case r of Inl err \<Rightarrow> None | Inr (states, files) \<Rightarrow> Some (map errors states))"










text \<open>The update a node returns, without the files it writes, and the state of a run after
  its first \<open>k\<close> nodes.\<close>

fun node_update :: "node \<Rightarrow> env \<Rightarrow> FinSightState \<Rightarrow> state_update" where
  "node_update coordinator e st = coordinator_process e st"
| "node_update load_transcript e st = load_transcript_update e st"
| "node_update sentiment_analysis e st = sentiment_process e st"
| "node_update event_detection e st = events_process e st"
| "node_update volatility_prediction e st = volatility_process e st"
| "node_update synthesize_report e st =
     (case generate_final_report (now_text e ''final_report'') st (sentiment_result st)
             (event_detection_result st) (volatility_result st) (metacognitive_decision st) of
        Inl err \<Rightarrow> no_update
      | Inr report \<Rightarrow> no_update\<lparr>u_final_report := Some report\<rparr>)"

definition pipeline :: "node list" where
  "pipeline =
     [coordinator, load_transcript, sentiment_analysis, event_detection, volatility_prediction,
      synthesize_report]"

definition state_after :: "env \<Rightarrow> FinSightState \<Rightarrow> nat \<Rightarrow> FinSightState" where
  "state_after e s0 k = fold (\<lambda>n st. merge_update st (node_update n e st)) (take k pipeline) s0"





text \<open>A number rounded to two decimals, ties to even: what \<open>.2f\<close> prints and \<open>float\<close> reads
  back.\<close>

definition round2 :: "rat \<Rightarrow> rat" where
  "round2 x = (if x < 0 then - 1 else 1) * of_int (round_half_even (\<bar>x\<bar> * 100)) / 100"

section \<open>Sample inputs\<close>

definition sample_decision :: MetacognitiveDecision where
  "sample_decision =
     \<lparr>user_intent = ''Understand the quarter'',
      analysis_plan = [''1. Read the call'', ''Compare with filings''],
      agents_to_invoke = [''sentiment_analysis'', ''event_detection'', ''volatility_prediction''],
      md_confidence = 9 / 10,
      reasoning = ''All three agents are relevant.''\<rparr>"

definition sample_sentiment :: SentimentAnalysisResult where
  "sample_sentiment =
     \<lparr>overall_sentiment = Positive,
      sentiment_score = 4 / 5,
      market_sentiment = ''Analysts reacted well.'',
      key_sentiment_drivers = [''Cloud growth'', ''Margins''],
      news_headlines = [],
      sent_confidence = 72 / 100,
      sent_tool_validations = []\<rparr>"

definition sample_event1 :: SignificantEvent where
  "sample_event1 =
     \<lparr>event_type = ''merger'', description = ''Acquisition of a rival'', mentioned_in_call = True,
      verified = True, source = ''transcript'', impact_assessment = ImpHigh\<rparr>"

definition sample_event2 :: SignificantEvent where
  "sample_event2 =
     \<lparr>event_type = ''buyback'', description = ''New repurchase programme'', mentioned_in_call = True,
      verified = False, source = ''transcript'', impact_assessment = ImpLow\<rparr>"

definition sample_events :: SignificantEventDetectionResult where
  "sample_events =
     \<lparr>events = [sample_event1, sample_event2],
      total_events_found = 2,
      verified_count = 1,
      ev_confidence = 55 / 100,
      ev_tool_validations = []\<rparr>"

definition sample_insight :: TranscriptAnalysisAnswer where
  "sample_insight =
     \<lparr>a_category = ''Financial Performance'', a_focus_item = ''Dividends'',
      a_question = ''Did this company pay investors a dividend?'',
      a_answer = ''Yes, every quarter.'', a_confidence = 9 / 10, a_relevant_quotes = []\<rparr>"

definition sample_volatility :: VolatilityPredictionResult where
  "sample_volatility =
     \<lparr>predicted_volatility = High,
      volatility_score = 7 / 10,
      transcript_insights = [],
      key_volatility_drivers = [''Guidance cut''],
      sentiment_impact = ''Positive tone dampens swings.'',
      event_impact = ''The merger adds uncertainty.'',
      vol_confidence = 3 / 4,
      historical_volatility = 0,
      vol_tool_validations = []\<rparr>"

text \<open>An environment in which every capability answers, and three variations of it.\<close>

definition sample_env :: env where
  "sample_env =
     \<lparr>llm_coordinator = (\<lambda>q t. Inr sample_decision),
      llm_sentiment = (\<lambda>x n. Inr sample_sentiment),
      llm_events = (\<lambda>x v. Inr sample_events),
      llm_question = (\<lambda>q x. Inr sample_insight),
      llm_volatility = (\<lambda>h p s ev v. Inr sample_volatility),
      search_tool = None,
      downloader_get = (\<lambda>f t n. Inr 0),
      repr_filing_results = (\<lambda>r. ''{}''),
      get_historical_volatility = (\<lambda>t. 1 / 5),
      get_price_movement = (\<lambda>t. None),
      transcript_files = (\<lambda>p. Some (Inr ''Good morning and welcome.'')),
      now_text = (\<lambda>a. ''2025-01-02 03:04:05''),
      now_file = (\<lambda>a. ''20250102_030405'')\<rparr>"


definition coordinator_and_transcript_failing_env :: env where
  "coordinator_and_transcript_failing_env =
     sample_env\<lparr>llm_coordinator := (\<lambda>q t. Inl ''timeout''), transcript_files := (\<lambda>p. None)\<rparr>"


text \<open>The result of a computation that did not raise.\<close>

definition result_of :: "py_error + 'a \<Rightarrow> 'a option" where
  "result_of r = (case r of Inl err \<Rightarrow> None | Inr v \<Rightarrow> Some v)"





definition events_without_summary :: string where
  "events_without_summary =
     ''## Detected Events\<newline>\<newline>\<newline>### Event 1: merger\<newline>\<newline>'' @
     ''- **Description:** Acquisition of a rival\<newline>- **Verified:** Yes\<newline>\<newline>\<newline>'' @
     ''## Tool Validations\<newline>\<newline>None\<newline>''"

section \<open>Properties of the run\<close>

lemma merge_self_model [simp]: "self_model (merge_update st u) = self_model st"
  by (simp add: merge_update_def)


lemma format_agent_report_ok:
  "format_agent_report ts ''sentiment'' t (SentimentR r) = Inr (format_sentiment_report ts t r)"
  "format_agent_report ts ''event_detection'' t (EventR r2) = Inr (format_event_detection_report ts t r2)"
  "format_agent_report ts ''volatility'' t (VolatilityR r3) = Inr (format_volatility_report ts t r3)"
  by (simp_all add: format_agent_report_def)







lemma run_node_self_model:
  "run_node e n st = Inr (st1, files) \<Longrightarrow> self_model st1 = self_model st"
  by (auto simp: run_node_def split: sum.splits)

lemma invoke_from_unfold:
  "invoke_from e n st = Inr (states, files) \<Longrightarrow>
   \<exists>st1 f1. run_node e n st = Inr (st1, f1) \<and>
     (case edge n of
        None \<Rightarrow> states = [st1] \<and> files = f1
      | Some n1 \<Rightarrow> (\<exists>ss f2. invoke_from e n1 st1 = Inr (ss, f2) \<and> states = st1 # ss \<and> files = f1 @ f2))"
  by (subst (asm) invoke_from.simps) (auto split: sum.splits option.splits)




lemma contains_prefix: "prefix sub s \<Longrightarrow> contains sub s"
  by (cases s) auto



lemma contains_here: "contains sub (sub @ q)"
  by (rule contains_prefix) simp

lemma capability_threshold_ok:
  "i < length (agent_capabilities sm) \<Longrightarrow>
   capability_threshold sm i = Inr (confidence_threshold (agent_capabilities sm ! i))"
  by (simp add: capability_threshold_def)

lemma table_row_opt_ok:
  "i < length (agent_capabilities sm) \<Longrightarrow> \<exists>row. table_row_opt sm i label conf = Inr row"
  by (cases conf) (simp_all add: table_row_opt_def capability_threshold_ok)

lemma report_confidence_table_ok:
  assumes "3 \<le> length (agent_capabilities sm)"
  shows "\<exists>table. report_confidence_table sm sent evs vol = Inr table"
proof -
  obtain r1 where r1: "table_row_opt sm 0 ''Sentiment Analysis'' (map_option sent_confidence sent) = Inr r1"
    using table_row_opt_ok[of 0 sm] assms by force
  obtain r2 where r2: "table_row_opt sm 1 ''Event Detection'' (map_option ev_confidence evs) = Inr r2"
    using table_row_opt_ok[of 1 sm] assms by force
  obtain r3 where r3: "table_row_opt sm 2 ''Volatility Prediction'' (map_option vol_confidence vol) = Inr r3"
    using table_row_opt_ok[of 2 sm] assms by force
  show ?thesis unfolding report_confidence_table_def r1 r2 r3 by simp
qed

lemma generate_final_report_ok:
  assumes "3 \<le> length (agent_capabilities (self_model st))"
  shows "\<exists>table. generate_final_report ts st sent evs vol d =
     Inr (report_header ts (company_ticker st) (self_model st) sent evs vol @
          report_coordinator d @ report_sentiment sent @ report_event_detection evs @
          report_volatility vol @ report_guardrails st @ table @ report_disclaimers (self_model st))"
proof -
  from report_confidence_table_ok[OF assms] obtain table where
    "report_confidence_table (self_model st) sent evs vol = Inr table" by blast
  then show ?thesis by (auto simp: generate_final_report_def)
qed

lemma save_agent_report_ok:
  "\<exists>f. save_agent_report e t ''sentiment'' (SentimentR r) = Inr f"
  "\<exists>f. save_agent_report e t ''event_detection'' (EventR r2) = Inr f"
  "\<exists>f. save_agent_report e t ''volatility'' (VolatilityR r3) = Inr f"
  by (simp_all add: save_agent_report_def format_agent_report_ok Let_def)

lemma node_fn_total:
  assumes "3 \<le> length (agent_capabilities (self_model st))"
  shows "\<exists>u files. node_fn n e st = Inr (u, files)"
proof (cases n)
  case coordinator
  then show ?thesis by (simp add: coordinator_node_def)
next
  case load_transcript
  then show ?thesis by (simp add: load_transcript_node_def Let_def)
next
  case sentiment_analysis
  show ?thesis
  proof (cases "u_sentiment_result (sentiment_process e st)")
    case None
    then show ?thesis using sentiment_analysis by (simp add: sentiment_node_def Let_def)
  next
    case (Some r)
    from save_agent_report_ok(1)[of e "company_ticker st" r] obtain f where
      "save_agent_report e (company_ticker st) ''sentiment'' (SentimentR r) = Inr f" by blast
    then show ?thesis using sentiment_analysis Some by (simp add: sentiment_node_def Let_def)
  qed
next
  case event_detection
  show ?thesis
  proof (cases "u_event_detection_result (events_process e st)")
    case None
    then show ?thesis using event_detection by (simp add: event_detection_node_def Let_def)
  next
    case (Some r)
    from save_agent_report_ok(2)[of e "company_ticker st" r] obtain f where
      "save_agent_report e (company_ticker st) ''event_detection'' (EventR r) = Inr f" by blast
    then show ?thesis using event_detection Some by (simp add: event_detection_node_def Let_def)
  qed
next
  case volatility_prediction
  show ?thesis
  proof (cases "u_volatility_result (volatility_process e st)")
    case None
    then show ?thesis using volatility_prediction by (simp add: volatility_prediction_node_def Let_def)
  next
    case (Some r)
    from save_agent_report_ok(3)[of e "company_ticker st" r] obtain f where
      "save_agent_report e (company_ticker st) ''volatility'' (VolatilityR r) = Inr f" by blast
    then show ?thesis using volatility_prediction Some
      by (simp add: volatility_prediction_node_def Let_def)
  qed
next
  case synthesize_report
  from generate_final_report_ok[OF assms] obtain r where
    "generate_final_report (now_text e ''final_report'') st (sentiment_result st)
       (event_detection_result st) (volatility_result st) (metacognitive_decision st) = Inr r"
    by blast
  then show ?thesis using synthesize_report by (simp add: synthesize_report_node_def)
qed

lemma run_node_total:
  assumes "3 \<le> length (agent_capabilities (self_model st))"
  shows "\<exists>st1 files. run_node e n st = Inr (st1, files)"
  using node_fn_total[OF assms, of n e] by (auto simp: run_node_def)

lemma invoke_from_total:
  "3 \<le> length (agent_capabilities (self_model st)) \<Longrightarrow>
   \<exists>states files. invoke_from e n st = Inr (states, files)"
proof (induction "rank n" arbitrary: n st rule: less_induct)
  case less
  from run_node_total[OF less.prems] obtain st1 f1 where r: "run_node e n st = Inr (st1, f1)"
    by blast
  show ?case
  proof (cases "edge n")
    case None
    then show ?thesis using r by (subst invoke_from.simps) simp
  next
    case (Some n1)
    have lt: "rank n1 < rank n" using Some by (cases n) auto
    have "3 \<le> length (agent_capabilities (self_model st1))"
      using run_node_self_model[OF r] less.prems by simp
    from less.hyps[OF lt this] obtain ss f2 where "invoke_from e n1 st1 = Inr (ss, f2)" by blast
    then show ?thesis using r Some by (subst invoke_from.simps) simp
  qed
qed



lemma initial_guardrails [simp]:
  "guardrails_applied (initial_state p t q) = []"
  "self_model (initial_state p t q) = get_default_self_model"
  by (simp_all add: initial_state_def)

lemma default_capabilities [simp]: "length (agent_capabilities get_default_self_model) = 3"
  by (simp add: get_default_self_model_def)



subsection \<open>The states of a run\<close>

lemma run_node_update:
  assumes "run_node e n st = Inr (st1, files)"
  shows "st1 = merge_update st (node_update n e st)"
  using assms
  by (cases n)
     (auto simp: run_node_def coordinator_node_def load_transcript_node_def sentiment_node_def
        event_detection_node_def volatility_prediction_node_def synthesize_report_node_def Let_def
      split: sum.splits option.splits)

lemma state_after_Suc:
  "k < length pipeline \<Longrightarrow>
   state_after e s0 (Suc k) =
   merge_update (state_after e s0 k) (node_update (pipeline ! k) e (state_after e s0 k))"
  by (simp add: state_after_def take_Suc_conv_app_nth)

lemma state_after_0 [simp]: "state_after e s0 0 = s0"
  by (simp add: state_after_def)

lemma invoke_from_states:
  assumes "invoke_from e (pipeline ! k) (state_after e s0 k) = Inr (states, files)" "k < 6"
  shows "states = map (state_after e s0) [Suc k ..< 7]"
  using assms
proof (induction "6 - k" arbitrary: k states files)
  case 0
  then show ?case by simp
next
  case (Suc m)
  have kl: "k < length pipeline" using Suc.prems by (simp add: pipeline_def)
  from invoke_from_unfold[OF Suc.prems(1)] obtain st1 f1 where
    r: "run_node e (pipeline ! k) (state_after e s0 k) = Inr (st1, f1)" and
    c: "case edge (pipeline ! k) of None \<Rightarrow> states = [st1] \<and> files = f1
        | Some n1 \<Rightarrow> (\<exists>ss f2. invoke_from e n1 st1 = Inr (ss, f2) \<and> states = st1 # ss \<and> files = f1 @ f2)"
    by blast
  have st1: "st1 = state_after e s0 (Suc k)"
    using run_node_update[OF r] state_after_Suc[OF kl] by simp
  show ?case
  proof (cases "k = 5")
    case True
    then have "edge (pipeline ! k) = None" by (simp add: pipeline_def)
    with c st1 True show ?thesis by (simp add: upt_rec)
  next
    case False
    then have k5: "k < 5" using Suc.prems by simp
    then have e: "edge (pipeline ! k) = Some (pipeline ! Suc k)"
      by (auto simp: pipeline_def less_Suc_eq numeral_eq_Suc)
    with c obtain ss f2 where i: "invoke_from e (pipeline ! Suc k) st1 = Inr (ss, f2)"
      and s: "states = st1 # ss" by auto
    have "m = 6 - Suc k" using Suc.hyps(2) by simp
    from Suc.hyps(1)[OF this i[unfolded st1]] k5 have "ss = map (state_after e s0) [Suc (Suc k) ..< 7]"
      by simp
    with s st1 show ?thesis using k5 by (simp add: upt_rec[of "Suc k"])
  qed
qed

lemma run_trace_states:
  "\<exists>files. run_trace e path ticker query =
     Inr (map (state_after e (initial_state path ticker query)) [1, 2, 3, 4, 5, 6], files)"
proof -
  let ?s0 = "initial_state path ticker query"
  have c3: "3 \<le> length (agent_capabilities (self_model ?s0))" by simp
  from invoke_from_total[OF c3] obtain states files where
    i: "invoke_from e entry_point ?s0 = Inr (states, files)" by blast
  have "invoke_from e (pipeline ! 0) (state_after e ?s0 0) = Inr (states, files)"
    using i by (simp add: pipeline_def entry_point_def)
  from invoke_from_states[OF this] have "states = map (state_after e ?s0) [Suc 0 ..< 7]" by simp
  also have "[Suc 0 ..< 7] = [1, 2, 3, 4, 5, 6]" by (simp add: upt_rec)
  finally show ?thesis using i by (auto simp: run_trace_def)
qed

lemma errors_merge:
  "errors (merge_update st u) = (case u_errors u of None \<Rightarrow> errors st | Some v \<Rightarrow> v)"
  by (simp add: merge_update_def)


lemma state_after_simps:
  "state_after e s0 (Suc 0) = merge_update s0 (coordinator_process e s0)"
  "state_after e s0 2 = merge_update (state_after e s0 (Suc 0)) (load_transcript_update e (state_after e s0 (Suc 0)))"
  "state_after e s0 3 = merge_update (state_after e s0 2) (sentiment_process e (state_after e s0 2))"
  "state_after e s0 4 = merge_update (state_after e s0 3) (events_process e (state_after e s0 3))"
  "state_after e s0 5 = merge_update (state_after e s0 4) (volatility_process e (state_after e s0 4))"
  "state_after e s0 6 =
     merge_update (state_after e s0 5) (node_update synthesize_report e (state_after e s0 5))"
  by (simp_all add: state_after_def pipeline_def numeral_eq_Suc)

subsection \<open>The error list\<close>

text \<open>What each node returns under the key \<open>errors\<close>.\<close>

lemma coordinator_errors:
  "u_errors (coordinator_process e st) =
     (case llm_coordinator e (user_query st) (company_ticker st) of
        Inl exc \<Rightarrow> Some (errors st @ [''Coordinator error: '' @ exc])
      | Inr d \<Rightarrow> None)"
  by (simp add: coordinator_process_def no_update_def split: sum.splits)

lemma load_transcript_errors:
  "u_errors (load_transcript_update e st) =
     (if prefix ''Error'' (read_transcript e (transcript_path st))
      then Some [read_transcript e (transcript_path st)] else None)"
  by (simp add: load_transcript_update_def no_update_def Let_def)

lemma sentiment_errors:
  "u_errors (sentiment_process e st) = None \<or>
   (\<exists>exc. u_errors (sentiment_process e st) = Some (errors st @ [''Sentiment analysis error: '' @ exc]))"
  by (simp add: sentiment_process_def no_update_def Let_def split: sum.splits)

lemma events_errors:
  "u_errors (events_process e st) = None \<or>
   (\<exists>exc. u_errors (events_process e st) = Some (errors st @ [''Event detection error: '' @ exc]))"
  by (simp add: events_process_def no_update_def Let_def split: sum.splits)

lemma volatility_errors:
  "u_errors (volatility_process e st) = None \<or>
   (\<exists>exc. u_errors (volatility_process e st) = Some (errors st @ [''Volatility prediction error: '' @ exc]))"
  by (simp add: volatility_process_def no_update_def Let_def split: sum.splits)

lemma synthesize_errors: "u_errors (node_update synthesize_report e st) = None"
  by (simp add: no_update_def split: sum.splits)

lemma agents_append_errors:
  assumes "n \<noteq> load_transcript"
  shows "prefix (errors st) (errors (merge_update st (node_update n e st)))"
proof (cases n)
  case coordinator
  then show ?thesis by (simp add: errors_merge coordinator_errors split: sum.splits)
next
  case load_transcript
  with assms show ?thesis by simp
next
  case sentiment_analysis
  then show ?thesis using sentiment_errors[of e st] by (auto simp: errors_merge)
next
  case event_detection
  then show ?thesis using events_errors[of e st] by (auto simp: errors_merge)
next
  case volatility_prediction
  then show ?thesis using volatility_errors[of e st] by (auto simp: errors_merge)
next
  case synthesize_report
  then show ?thesis by (simp only: errors_merge synthesize_errors option.case prefix_order.refl)
qed

lemma sample_env_errors:
  "u_errors (sentiment_process coordinator_and_transcript_failing_env st) = None"
  "u_errors (events_process coordinator_and_transcript_failing_env st) = None"
  "u_errors (volatility_process coordinator_and_transcript_failing_env st) = None"
  by (simp_all add: sentiment_process_def events_process_def volatility_process_def no_update_def
        Let_def coordinator_and_transcript_failing_env_def sample_env_def)

text \<open>
  Claim C3 says that the error list only grows and that an error recorded by an earlier
  stage is still there at the end.  The agents and the synthesis node keep the list as a
  prefix (\<open>agents_append_errors\<close>); the node that loads the transcript returns a fresh list.
  In the run below the coordinator's completion call fails and the transcript file is missing:
  the trace shows the coordinator's error after the first node, and from the second node on
  only the transcript error.
\<close>

theorem load_transcript_replaces_errors:
  "trace_errors (run_trace coordinator_and_transcript_failing_env ''call.txt'' ''ACME'' None) =
     Some [[''Coordinator error: timeout''],
           [''Error: Transcript file not found at call.txt''],
           [''Error: Transcript file not found at call.txt''],
           [''Error: Transcript file not found at call.txt''],
           [''Error: Transcript file not found at call.txt''],
           [''Error: Transcript file not found at call.txt'']]"
proof -
  let ?e = coordinator_and_transcript_failing_env
  let ?s0 = "initial_state ''call.txt'' ''ACME'' None"
  obtain files where
    "run_trace ?e ''call.txt'' ''ACME'' None = Inr (map (state_after ?e ?s0) [1, 2, 3, 4, 5, 6], files)"
    using run_trace_states by blast
  then have t: "trace_errors (run_trace ?e ''call.txt'' ''ACME'' None) =
      Some (map (\<lambda>k. errors (state_after ?e ?s0 k)) [1, 2, 3, 4, 5, 6])"
    by (simp add: trace_errors_def)
  have e1: "errors (state_after ?e ?s0 (Suc 0)) = [''Coordinator error: timeout'']"
    by (simp add: state_after_simps errors_merge coordinator_errors
          coordinator_and_transcript_failing_env_def sample_env_def initial_state_def)
  have p: "transcript_path (state_after ?e ?s0 (Suc 0)) = ''call.txt''"
    by (simp add: state_after_simps merge_update_def initial_state_def)
  have r: "read_transcript ?e ''call.txt'' = ''Error: Transcript file not found at call.txt''"
    by (simp add: read_transcript_def coordinator_and_transcript_failing_env_def sample_env_def)
  have e2: "errors (state_after ?e ?s0 2) = [''Error: Transcript file not found at call.txt'']"
    by (simp add: state_after_simps(2) errors_merge load_transcript_errors p r)
  have e3: "errors (state_after ?e ?s0 3) = [''Error: Transcript file not found at call.txt'']"
    by (simp add: state_after_simps(3) errors_merge sample_env_errors e2)
  have e4: "errors (state_after ?e ?s0 4) = [''Error: Transcript file not found at call.txt'']"
    by (simp add: state_after_simps(4) errors_merge sample_env_errors e3)
  have e5: "errors (state_after ?e ?s0 5) = [''Error: Transcript file not found at call.txt'']"
    by (simp add: state_after_simps(5) errors_merge sample_env_errors e4)
  have e6: "errors (state_after ?e ?s0 6) = [''Error: Transcript file not found at call.txt'']"
    by (simp add: state_after_simps(6) errors_merge synthesize_errors e5 del: node_update.simps)
  show ?thesis unfolding t by (simp add: e1 e2 e3 e4 e5 e6)
qed

subsection \<open>The guardrail status\<close>



subsection \<open>The ranges of the results\<close>






















subsection \<open>A failing Events stage\<close>















section \<open>Properties of the extractor\<close>

subsection \<open>Missing artifacts\<close>




subsection \<open>Defaults\<close>

lemma bind_Inr: "bind x f = Inr v \<Longrightarrow> \<exists>u. x = Inr u \<and> f u = Inr v"
  by (cases x) (simp_all add: bind_def)

lemma bind_Inl: "bind x f = Inl err \<Longrightarrow> x = Inl err \<or> (\<exists>u. x = Inr u \<and> f u = Inl err)"
  by (cases x) (simp_all add: bind_def)

lemma convert_None: "convert f None = Inr None"
  by (simp add: convert_def)

lemma convert_Inr_None: "m = None \<Longrightarrow> convert f m = Inr v \<Longrightarrow> v = None"
  by (simp add: convert_def)

text \<open>The fields of the metadata are the conversions of the captures.\<close>

lemma extract_metadata_fields:
  assumes "extract_metadata content = Inr md"
  shows "convert Inr (re_search pat_ticker content) = Inr (m_ticker md)"
    and "convert Inr (re_search pat_generated content) = Inr (m_generated md)"
    and "convert Inr (re_search pat_agent content) = Inr (m_agent md)"
    and "convert Inr (re_search pat_sentiment content) = Inr (m_sentiment md)"
    and "convert py_float (re_search pat_score content) = Inr (m_score md)"
    and "convert py_float (re_search pat_confidence content) = Inr (m_confidence md)"
    and "convert py_int (re_search pat_total_events content) = Inr (m_total_events md)"
    and "convert py_int (re_search pat_verified_events content) = Inr (m_verified_events md)"
    and "convert Inr (re_search pat_predicted_volatility content) = Inr (m_predicted_volatility md)"
    and "convert py_float (re_search pat_volatility_score content) = Inr (m_volatility_score md)"
    and "convert py_float (re_search pat_historical_volatility content) = Inr (m_historical_volatility md)"
proof -
  from assms obtain v1 v2 v3 v4 v5 v6 v7 v8 v9 v10 v11 where
    c: "convert Inr (re_search pat_ticker content) = Inr v1"
       "convert Inr (re_search pat_generated content) = Inr v2"
       "convert Inr (re_search pat_agent content) = Inr v3"
       "convert Inr (re_search pat_sentiment content) = Inr v4"
       "convert py_float (re_search pat_score content) = Inr v5"
       "convert py_float (re_search pat_confidence content) = Inr v6"
       "convert py_int (re_search pat_total_events content) = Inr v7"
       "convert py_int (re_search pat_verified_events content) = Inr v8"
       "convert Inr (re_search pat_predicted_volatility content) = Inr v9"
       "convert py_float (re_search pat_volatility_score content) = Inr v10"
       "convert py_float (re_search pat_historical_volatility content) = Inr v11" and
    m: "md = \<lparr>m_ticker = v1, m_generated = v2, m_agent = v3, m_sentiment = v4,
          m_score = v5, m_confidence = v6, m_total_events = v7,
          m_verified_events = v8, m_predicted_volatility = v9,
          m_volatility_score = v10, m_historical_volatility = v11\<rparr>"
    unfolding extract_metadata_def
    by (elim bind_Inr[THEN exE] conjE) auto
  show "convert Inr (re_search pat_ticker content) = Inr (m_ticker md)"
    and "convert Inr (re_search pat_generated content) = Inr (m_generated md)"
    and "convert Inr (re_search pat_agent content) = Inr (m_agent md)"
    and "convert Inr (re_search pat_sentiment content) = Inr (m_sentiment md)"
    and "convert py_float (re_search pat_score content) = Inr (m_score md)"
    and "convert py_float (re_search pat_confidence content) = Inr (m_confidence md)"
    and "convert py_int (re_search pat_total_events content) = Inr (m_total_events md)"
    and "convert py_int (re_search pat_verified_events content) = Inr (m_verified_events md)"
    and "convert Inr (re_search pat_predicted_volatility content) = Inr (m_predicted_volatility md)"
    and "convert py_float (re_search pat_volatility_score content) = Inr (m_volatility_score md)"
    and "convert py_float (re_search pat_historical_volatility content) = Inr (m_historical_volatility md)"
    using c by (simp_all add: m)
qed









lemma get_or_None: "get_or None d = d"
  by (simp add: get_or_def)




lemma events_fields:
  assumes "events_of_text now ticker content = Inr d"
  shows "evd_events d = map event_of_section (re_findall pat_event_section content)"
    and "re_search pat_total_events content = None \<Longrightarrow> evd_total_events d = int (length (evd_events d))"
    and "re_search pat_verified_events content = None \<Longrightarrow> evd_verified_events d = int (length (evd_events d))"
    and "re_search pat_confidence content = None \<Longrightarrow> evd_confidence d = 90"
proof -
  from assms obtain md where md: "extract_metadata content = Inr md" and
    d: "d = (let found = map event_of_section (re_findall pat_event_section content) in
         \<lparr>evd_ticker = ticker,
          evd_total_events = get_or (m_total_events md) (int (length found)),
          evd_verified_events = get_or (m_verified_events md) (int (length found)),
          evd_confidence = get_or (m_confidence md) 90,
          evd_events = found,
          evd_tool_validations = items_of (re_search pat_tool_validations content),
          evd_generated = get_or (m_generated md) now\<rparr>)"
    unfolding events_of_text_def by (auto dest!: bind_Inr)
  note f = extract_metadata_fields[OF md]
  show "evd_events d = map event_of_section (re_findall pat_event_section content)"
    by (simp add: d Let_def)
  show "re_search pat_total_events content = None \<Longrightarrow> evd_total_events d = int (length (evd_events d))"
    using f(7) by (auto simp: d convert_None get_or_def Let_def)
  show "re_search pat_verified_events content = None \<Longrightarrow> evd_verified_events d = int (length (evd_events d))"
    using f(8) by (auto simp: d convert_None get_or_def Let_def)
  show "re_search pat_confidence content = None \<Longrightarrow> evd_confidence d = 90"
    using f(6) by (auto simp: d convert_None get_or_def Let_def)
qed







subsection \<open>The counts of events\<close>

lemma report_events_default:
  assumes "report_of_text now ticker content = Inr d" "re_search pat_summary_events content = None"
  shows "rd_events_detected d = 0 \<and> rd_events_verified d = 0"
proof -
  from assms(1) obtain x1 x2 where
    x: "field_or (re_search pat_summary_events content) 1 py_int 0 = Inr x1"
       "field_or (re_search pat_summary_events content) 2 py_int 0 = Inr x2"
       "rd_events_detected d = x1" "rd_events_verified d = x2"
    unfolding report_of_text_def Let_def
    by (elim bind_Inr[THEN exE] conjE) auto
  then show ?thesis using assms(2) by (simp add: field_or_def)
qed

text \<open>
  Claim C8, as amended.  When the label of a count is absent from an event report,
  \<open>detect_events\<close> gives that count the number of event sections it found, which is 0 only
  when it found none.  The extractor of the final report gives both counts 0 when the
  line of the executive summary is absent.
\<close>

theorem event_counts_default:
  "(\<forall>d. events_of_text now ticker content = Inr d \<longrightarrow>
      evd_events d = map event_of_section (re_findall pat_event_section content) \<and>
      (re_search pat_total_events content = None \<longrightarrow> evd_total_events d = int (length (evd_events d))) \<and>
      (re_search pat_verified_events content = None \<longrightarrow> evd_verified_events d = int (length (evd_events d)))) \<and>
   (\<forall>d. report_of_text now ticker content = Inr d \<longrightarrow>
      re_search pat_summary_events content = None \<longrightarrow>
      rd_events_detected d = 0 \<and> rd_events_verified d = 0)"
  using events_fields(1,2,3)[of now ticker content] report_events_default[of now ticker content]
  by blast

lemma events_without_summary_eval:
  "re_search pat_total_events events_without_summary = None"
  "re_search pat_verified_events events_without_summary = None"
  "re_search pat_summary_events events_without_summary = None"
  "events_of_text ''now'' ''ACME'' events_without_summary =
     Inr \<lparr>evd_ticker = ''ACME'', evd_total_events = 1, evd_verified_events = 1,
        evd_confidence = 90,
        evd_events =
          [\<lparr>ed_type = ''merger'', ed_description = ''Acquisition of a rival'',
            ed_impact = ''MEDIUM'', ed_source = ''transcript'', ed_verified = True\<rparr>],
        evd_tool_validations = [], evd_generated = ''now''\<rparr>"
  "map_option rd_events_detected (result_of (report_of_text ''now'' ''ACME'' events_without_summary)) = Some 0"
  by code_simp+

text \<open>
  Claim C8 as stated fails: the report below has no count labels and one event section, and
  both counts come out as 1.
\<close>

theorem event_counts_counterexample:
  "re_search pat_total_events events_without_summary = None \<and>
   re_search pat_verified_events events_without_summary = None \<and>
   map_option evd_total_events (result_of (events_of_text ''now'' ''ACME'' events_without_summary)) = Some 1 \<and>
   map_option evd_verified_events (result_of (events_of_text ''now'' ''ACME'' events_without_summary)) = Some 1"
  by (simp add: events_without_summary_eval result_of_def)

text \<open>The same report, read by both extractors.\<close>

theorem event_counts_witness:
  "re_search pat_total_events events_without_summary = None \<and>
   re_search pat_summary_events events_without_summary = None \<and>
   map_option (\<lambda>d. (evd_total_events d, length (evd_events d)))
     (result_of (events_of_text ''now'' ''ACME'' events_without_summary)) = Some (1, 1) \<and>
   map_option rd_events_detected (result_of (report_of_text ''now'' ''ACME'' events_without_summary)) = Some 0"
proof -
  obtain d where d: "events_of_text ''now'' ''ACME'' events_without_summary = Inr d"
    and l: "length (evd_events d) = 1"
    using events_without_summary_eval(4) by simp
  with event_counts_default[of "''now''" "''ACME''" events_without_summary]
    events_without_summary_eval(1)
  have "evd_total_events d = int (length (evd_events d))" by blast
  with d l events_without_summary_eval show ?thesis by (simp add: result_of_def)
qed

end
